theory Spec2Isabelle
  imports Complex_Main
begin

section \<open>Grid automation of the MMT010 portal (src/src/mmt010_automation.py)\<close>

text \<open>
  The class \<open>MMT010Automation\<close> drives a browser page through the Playwright driver.
  The embedding keeps the code's structure: every \<open>async def\<close> becomes a program in a
  monad that threads the state of the browser (the "world"), collects the effects the
  code performs (driver calls, sleeps, logger calls) and carries Python exceptions as
  values, so that each \<open>try ... except\<close> and each early \<open>return\<close> of the source is a
  branch of the model.
\<close>

subsection \<open>Exceptions, effects and the program monad\<close>

text \<open>
  Exceptions of class \<open>Exception\<close>: the errors the Playwright driver raises (its
  \<open>Error\<close> and \<open>TimeoutError\<close>, with their message) and Python's own
  \<open>ZeroDivisionError\<close>.
\<close>

datatype exn = Driver_error string | ZeroDivisionError

text \<open>
  A CSS selector string, or the f-string \<open>f'td:nth-child({k})'\<close> kept with its number.
\<close>

datatype selector = Css string | Td_nth_child int

text \<open>
  A Playwright \<open>Locator\<close> is a selector chain that is resolved against the page each
  time it is used: \<open>page.locator(sel)\<close>, \<open>loc.locator(sel)\<close>, \<open>loc.nth(i)\<close> and
  \<open>loc.filter(has_text=s)\<close>. \<open>loc.first\<close> is \<open>loc.nth(0)\<close>.
\<close>

datatype locator =
    Page_locator selector
  | Sub_locator locator selector
  | Nth locator int
  | Filter_has_text locator string

definition first_loc :: "locator \<Rightarrow> locator" where
  "first_loc l = Nth l 0"

text \<open>The awaited driver calls the code makes on a locator.\<close>

datatype call =
    Wait_for_visible locator nat
  | Count locator
  | Click locator
  | Dblclick locator
  | Fill locator string
  | Press locator string
  | Text_content locator

datatype level = INFO | WARNING | ERROR

datatype arg = S string | I int | X exn

text \<open>
  The effects of a run, in the order they happen. \<open>Log lvl n args\<close> is the logger call
  at line \<open>n\<close> of src/src/mmt010_automation.py with the values it interpolates;
  \<open>Sleep d\<close> is \<open>asyncio.sleep(d)\<close> (seconds); \<open>Call c\<close> is a driver call that
  returned and \<open>Raised c e\<close> one that raised \<open>e\<close>.
\<close>

datatype event =
    Log level nat "arg list"
  | Sleep rat
  | Call call
  | Raised call exn

text \<open>
  The browser, as far as the code can observe it. \<open>'w\<close> is the state of the page and
  \<open>'e\<close> its elements. The queries give the elements a selector matches, in document
  order; \<open>perform\<close> says for each driver call whether it raises and how the page changes
  (the page may also change while the code sleeps). \<open>normalize_space\<close> and \<open>lower_case\<close>
  are the driver's white-space normalisation and JavaScript's \<open>toLowerCase\<close>.
\<close>

record ('w, 'e) browser =
  query_page :: "'w \<Rightarrow> selector \<Rightarrow> 'e list"
  query_within :: "'w \<Rightarrow> 'e list \<Rightarrow> selector \<Rightarrow> 'e list"
  element_text :: "'w \<Rightarrow> 'e \<Rightarrow> string"
  content_of :: "'w \<Rightarrow> locator \<Rightarrow> string option"
  normalize_space :: "string \<Rightarrow> string"
  lower_case :: "string \<Rightarrow> string"
  perform :: "call \<Rightarrow> 'w \<Rightarrow> exn option \<times> 'w"
  elapse :: "rat \<Rightarrow> 'w \<Rightarrow> 'w"

type_synonym ('w, 'a) prog = "'w \<Rightarrow> (exn + 'a) \<times> 'w \<times> event list"

definition ret :: "'a \<Rightarrow> ('w, 'a) prog" where
  "ret a w = (Inr a, w, [])"

definition bnd :: "('w, 'a) prog \<Rightarrow> ('a \<Rightarrow> ('w, 'b) prog) \<Rightarrow> ('w, 'b) prog" where
  "bnd m f w =
     (case m w of
        (Inl e, w1, evs) \<Rightarrow> (Inl e, w1, evs)
      | (Inr a, w1, evs) \<Rightarrow> (case f a w1 of (r, w2, evs2) \<Rightarrow> (r, w2, evs @ evs2)))"

definition nxt :: "('w, 'a) prog \<Rightarrow> ('w, 'b) prog \<Rightarrow> ('w, 'b) prog" where
  "nxt m k = bnd m (\<lambda>_. k)"

text \<open>\<open>try: m except Exception as e: h e\<close>\<close>

definition try_except :: "('w, 'a) prog \<Rightarrow> (exn \<Rightarrow> ('w, 'a) prog) \<Rightarrow> ('w, 'a) prog" where
  "try_except m h w =
     (case m w of
        (Inl e, w1, evs) \<Rightarrow> (case h e w1 of (r, w2, evs2) \<Rightarrow> (r, w2, evs @ evs2))
      | (Inr a, w1, evs) \<Rightarrow> (Inr a, w1, evs))"

text \<open>A \<open>for\<close> loop without \<open>break\<close> that updates its local variables \<open>acc\<close>.\<close>

fun for_loop :: "'a list \<Rightarrow> ('a \<Rightarrow> 'b \<Rightarrow> ('w, 'b) prog) \<Rightarrow> 'b \<Rightarrow> ('w, 'b) prog" where
  "for_loop [] body acc = ret acc"
| "for_loop (x # xs) body acc = bnd (body x acc) (\<lambda>acc'. for_loop xs body acc')"

definition log :: "level \<Rightarrow> nat \<Rightarrow> arg list \<Rightarrow> ('w, unit) prog" where
  "log lvl line args w = (Inr (), w, [Log lvl line args])"

definition sleep :: "('w, 'e) browser \<Rightarrow> rat \<Rightarrow> ('w, unit) prog" where
  "sleep br d w = (Inr (), elapse br d w, [Sleep d])"

definition driver :: "('w, 'e) browser \<Rightarrow> call \<Rightarrow> ('w, unit) prog" where
  "driver br c w =
     (case perform br c w of
        (None, w1) \<Rightarrow> (Inr (), w1, [Call c])
      | (Some e, w1) \<Rightarrow> (Inl e, w1, [Raised c e]))"

text \<open>Python's \<open>a / b\<close> on integers; the quotient is kept exact.\<close>

definition truediv :: "nat \<Rightarrow> nat \<Rightarrow> ('w, rat) prog" where
  "truediv a b w = (if b = 0 then (Inl ZeroDivisionError, w, []) else (Inr (of_nat a / of_nat b), w, []))"

subsection \<open>What a locator resolves to\<close>

text \<open>
  JavaScript's \<open>Array.prototype.slice(a, b)\<close>, which the driver's \<open>nth\<close> engine uses: a
  negative bound counts from the end, and both bounds are clamped to the array.
\<close>

definition js_slice :: "'a list \<Rightarrow> int \<Rightarrow> int \<Rightarrow> 'a list" where
  "js_slice xs a b =
     (let n = int (length xs);
          k = (if a < 0 then max (n + a) 0 else min a n);
          f = (if b < 0 then max (n + b) 0 else min b n)
      in take (nat (f - k)) (drop (nat k) xs))"

text \<open>
  The \<open>nth\<close> engine: \<open>nth=-1\<close> is the last element (it is how \<open>loc.last\<close> is written),
  any other index \<open>i\<close> selects \<open>slice(i, i + 1)\<close>: at most one element.
\<close>

definition pw_nth :: "'a list \<Rightarrow> int \<Rightarrow> 'a list" where
  "pw_nth xs i = (let j = (if i = - 1 then int (length xs) - 1 else i) in js_slice xs j (j + 1))"

fun is_prefix_of :: "string \<Rightarrow> string \<Rightarrow> bool" where
  "is_prefix_of [] ys = True"
| "is_prefix_of (x # xs) [] = False"
| "is_prefix_of (x # xs) (y # ys) = (x = y \<and> is_prefix_of xs ys)"

text \<open>\<open>t in s\<close>: \<open>t\<close> occurs in \<open>s\<close> as a contiguous substring, compared character by character.\<close>

fun contains :: "string \<Rightarrow> string \<Rightarrow> bool" where
  "contains [] t = (t = [])"
| "contains (c # cs) t = (is_prefix_of t (c # cs) \<or> contains cs t)"

text \<open>
  \<open>filter(has_text=t)\<close> with a string \<open>t\<close>: the driver documents the match as
  case-insensitive and by substring, after white space is normalised on both sides.
\<close>

definition has_text_match :: "('w, 'e) browser \<Rightarrow> string \<Rightarrow> string \<Rightarrow> bool" where
  "has_text_match br t text =
     contains (lower_case br (normalize_space br text)) (lower_case br (normalize_space br t))"

text \<open>
  The Python client appends the \<open>has_text\<close> filter only \<open>if has_text:\<close>, so an empty
  string filters nothing.
\<close>

fun resolve :: "('w, 'e) browser \<Rightarrow> 'w \<Rightarrow> locator \<Rightarrow> 'e list" where
  "resolve br w (Page_locator sel) = query_page br w sel"
| "resolve br w (Sub_locator l sel) = query_within br w (resolve br w l) sel"
| "resolve br w (Nth l i) = pw_nth (resolve br w l) i"
| "resolve br w (Filter_has_text l t) =
     (if t = [] then resolve br w l
      else filter (\<lambda>e. has_text_match br t (element_text br w e)) (resolve br w l))"

subsection \<open>Driver calls\<close>

definition pw_wait_for :: "('w, 'e) browser \<Rightarrow> locator \<Rightarrow> nat \<Rightarrow> ('w, unit) prog" where
  "pw_wait_for br l timeout = driver br (Wait_for_visible l timeout)"

text \<open>\<open>await loc.count()\<close>: the number of elements the locator resolves to now.\<close>

definition pw_count :: "('w, 'e) browser \<Rightarrow> locator \<Rightarrow> ('w, nat) prog" where
  "pw_count br l w =
     (case driver br (Count l) w of
        (Inl e, w1, evs) \<Rightarrow> (Inl e, w1, evs)
      | (Inr u, w1, evs) \<Rightarrow> (Inr (length (resolve br w1 l)), w1, evs))"

definition pw_click :: "('w, 'e) browser \<Rightarrow> locator \<Rightarrow> ('w, unit) prog" where
  "pw_click br l = driver br (Click l)"

definition pw_dblclick :: "('w, 'e) browser \<Rightarrow> locator \<Rightarrow> ('w, unit) prog" where
  "pw_dblclick br l = driver br (Dblclick l)"

definition pw_fill :: "('w, 'e) browser \<Rightarrow> locator \<Rightarrow> string \<Rightarrow> ('w, unit) prog" where
  "pw_fill br l v = driver br (Fill l v)"

definition pw_press :: "('w, 'e) browser \<Rightarrow> locator \<Rightarrow> string \<Rightarrow> ('w, unit) prog" where
  "pw_press br l k = driver br (Press l k)"

text \<open>\<open>await loc.text_content()\<close>: the text, or \<open>None\<close>.\<close>

definition pw_text_content :: "('w, 'e) browser \<Rightarrow> locator \<Rightarrow> ('w, string option) prog" where
  "pw_text_content br l w =
     (case driver br (Text_content l) w of
        (Inl e, w1, evs) \<Rightarrow> (Inl e, w1, evs)
      | (Inr u, w1, evs) \<Rightarrow> (Inr (content_of br w1 l), w1, evs))"

subsection \<open>Configuration and records (src/src/config.py, src/src/data_manager.py)\<close>

text \<open>
  The part of \<open>WebConfig\<close> the automation reads: three selectors, the element timeout
  (milliseconds) and \<open>column_mapping: Dict[str, int]\<close>. Strings are UTF-8 bytes.
\<close>

record web_config =
  sel_grid_container :: string
  sel_data_row :: string
  sel_header_row :: string
  element_timeout :: nat
  column_mapping :: "string \<rightharpoonup> int"

definition key_part_number :: string where
  "key_part_number = [CHR 0xE6, CHR 0x96, CHR 0x99, CHR 0xE8, CHR 0x99, CHR 0x9F]"

definition key_station :: string where
  "key_station = [CHR 0xE7, CHR 0xAB, CHR 0x99, CHR 0xE4, CHR 0xBD, CHR 0x8D]"

definition key_version :: string where
  "key_version = [CHR 0xE7, CHR 0x89, CHR 0x88, CHR 0xE6, CHR 0x9C, CHR 0xAC]"

definition key_description :: string where
  "key_description = [CHR 0xE6, CHR 0x8F, CHR 0x8F, CHR 0xE8, CHR 0xBF, CHR 0xB0]"

definition key_mfgid_group :: string where
  "key_mfgid_group = ''MFGID'' @ [CHR 0xE7, CHR 0xBE, CHR 0xA4, CHR 0xE7, CHR 0xB5, CHR 0x84]"

text \<open>The five main fields of \<open>TestData\<close>, named as the specification names them.\<close>

record test_data =
  part_number :: string
  station :: string
  version :: string
  description :: string
  manufacturing_group :: string

text \<open>\<open>TestData.to_dict\<close>: a dict literal, so its items come in the order written.\<close>

definition to_dict :: "test_data \<Rightarrow> (string \<times> string) list" where
  "to_dict td =
     [(key_part_number, part_number td),
      (key_station, station td),
      (key_version, version td),
      (key_description, description td),
      (key_mfgid_group, manufacturing_group td)]"

definition grid_container :: "web_config \<Rightarrow> locator" where
  "grid_container cfg = Page_locator (Css (sel_grid_container cfg))"

definition data_rows :: "web_config \<Rightarrow> locator" where
  "data_rows cfg = Sub_locator (grid_container cfg) (Css (sel_data_row cfg))"

definition header_row :: "web_config \<Rightarrow> locator" where
  "header_row cfg = Sub_locator (grid_container cfg) (Css (sel_header_row cfg))"

subsection \<open>Locating rows and editing cells\<close>

definition wait_for_grid_ready :: "('w, 'e) browser \<Rightarrow> web_config \<Rightarrow> ('w, bool) prog" where
  "wait_for_grid_ready br cfg =
     try_except
       (nxt (log INFO 151 [])
       (nxt (pw_wait_for br (grid_container cfg) (element_timeout cfg))
       (nxt (sleep br 2)
       (nxt (log INFO 162 [])
       (ret True)))))
       (\<lambda>e. nxt (log ERROR 166 [X e]) (ret False))"

text \<open>\<open>row_identifier: Union[int, str]\<close>\<close>

datatype row_identifier = Row_int int | Row_str string

definition find_grid_row ::
  "('w, 'e) browser \<Rightarrow> web_config \<Rightarrow> row_identifier \<Rightarrow> ('w, locator option) prog" where
  "find_grid_row br cfg rid =
     try_except
       (bnd (wait_for_grid_ready br cfg) (\<lambda>ready.
          if \<not> ready then ret None
          else (case rid of
              Row_int n \<Rightarrow>
                nxt (log INFO 214 [I n])
                (let row_locator = Nth (data_rows cfg) (n - 1) in
                 bnd (pw_count br row_locator) (\<lambda>c.
                   if c > 0 then ret (Some row_locator)
                   else nxt (log WARNING 222 [I n]) (ret None)))
            | Row_str t \<Rightarrow>
                nxt (log INFO 227 [S t])
                (let row_locator = first_loc (Filter_has_text (data_rows cfg) t) in
                 bnd (pw_count br row_locator) (\<lambda>c.
                   if c > 0 then ret (Some row_locator)
                   else nxt (log WARNING 234 [S t]) (ret None))))))
       (\<lambda>e. nxt (log ERROR 238 [X e]) (ret None))"

definition fill_single_cell ::
  "('w, 'e) browser \<Rightarrow> web_config \<Rightarrow> locator \<Rightarrow> string \<Rightarrow> string \<Rightarrow> ('w, bool) prog" where
  "fill_single_cell br cfg row_locator column_name v =
     try_except
       (case column_mapping cfg column_name of
          None \<Rightarrow> nxt (log WARNING 245 [S column_name]) (ret False)
        | Some col_index \<Rightarrow>
            nxt (log INFO 249 [S column_name, I col_index, S v])
            (let cell_locator = Sub_locator row_locator (Td_nth_child (col_index + 1)) in
             bnd (pw_count br cell_locator) (\<lambda>c.
               if c = 0 then nxt (log ERROR 255 [I (col_index + 1)]) (ret False)
               else
                 nxt (pw_dblclick br cell_locator)
                 (nxt (sleep br (1 / 2))
                 (let input_editor = Sub_locator cell_locator (Css ''input[type=\"text\"]:visible'') in
                  bnd (try_except
                         (nxt (pw_wait_for br input_editor 5000) (ret True))
                         (\<lambda>e. nxt (log ERROR 268 [S column_name])
                              (nxt (pw_click br (Page_locator (Css ''body'')))
                              (ret False))))
                      (\<lambda>editor_visible.
                         if \<not> editor_visible then ret False
                         else
                           nxt (pw_fill br input_editor v)
                           (nxt (pw_press br input_editor ''Enter'')
                           (nxt (sleep br 1)
                           (nxt (log INFO 280 [S column_name])
                           (ret True))))))))))
       (\<lambda>e. nxt (log ERROR 284 [X e]) (ret False))"

subsection \<open>Creating, editing and deleting a record\<close>

definition text_new :: string where
  "text_new = [CHR 0xE6, CHR 0x96, CHR 0xB0, CHR 0xE5, CHR 0xA2, CHR 0x9E]"

definition text_delete :: string where
  "text_delete = [CHR 0xE5, CHR 0x88, CHR 0xAA, CHR 0xE9, CHR 0x99, CHR 0xA4]"

definition add_button_selectors :: "selector list" where
  "add_button_selectors =
     [Css ''[id$=\"_DXCBtnNew\"]'',
      Css ''[id*=\"New\"]'',
      Css (''input[value=\"'' @ text_new @ ''\"]''),
      Css (''a[title*=\"'' @ text_new @ ''\"]'')]"

definition delete_button_selectors :: "selector list" where
  "delete_button_selectors =
     [Css ''[id$=\"_DXCBtnDelete\"]'',
      Css ''[id*=\"Delete\"]'',
      Css (''input[value=\"'' @ text_delete @ ''\"]''),
      Css (''a[title*=\"'' @ text_delete @ ''\"]'')]"

text \<open>
  \<open>for selector in selectors: ... if await potential_button.count() > 0: ... break\<close>,
  the search for the add and for the delete button.
\<close>

fun find_button ::
  "('w, 'e) browser \<Rightarrow> locator \<Rightarrow> selector list \<Rightarrow> ('w, locator option) prog" where
  "find_button br container [] = ret None"
| "find_button br container (selector # rest) =
     (let potential_button = Sub_locator container selector in
      bnd (pw_count br potential_button) (\<lambda>c.
        if c > 0 then ret (Some (first_loc potential_button))
        else find_button br container rest))"

text \<open>
  The body of the loop \<open>for field_name, field_value in data_dict.items()\<close> of
  \<open>add_new_test_data\<close> (lines 336 to 340); \<open>success_count\<close> is its local variable.
\<close>

definition create_field ::
  "('w, 'e) browser \<Rightarrow> web_config \<Rightarrow> locator \<Rightarrow> string \<times> string \<Rightarrow> nat \<Rightarrow> ('w, nat) prog" where
  "create_field br cfg last_row item success_count =
     (case item of (field_name, field_value) \<Rightarrow>
        if column_mapping cfg field_name \<noteq> None then
          bnd (fill_single_cell br cfg last_row field_name field_value)
            (\<lambda>success. ret (if success then success_count + 1 else success_count))
        else ret success_count)"

text \<open>The body of the same loop in \<open>edit_test_data\<close> (lines 374 to 381).\<close>

definition edit_field ::
  "('w, 'e) browser \<Rightarrow> web_config \<Rightarrow> locator \<Rightarrow> string \<times> string \<Rightarrow> nat \<Rightarrow> ('w, nat) prog" where
  "edit_field br cfg row_locator item success_count =
     (case item of (field_name, field_value) \<Rightarrow>
        if column_mapping cfg field_name \<noteq> None then
          nxt (log INFO 376 [S field_name])
          (bnd (fill_single_cell br cfg row_locator field_name field_value)
             (\<lambda>success.
                if success then ret (success_count + 1)
                else nxt (log WARNING 381 [S field_name]) (ret success_count)))
        else ret success_count)"

definition add_new_test_data :: "('w, 'e) browser \<Rightarrow> web_config \<Rightarrow> test_data \<Rightarrow> ('w, bool) prog" where
  "add_new_test_data br cfg td =
     try_except
       (nxt (log INFO 290 [])
       (bnd (wait_for_grid_ready br cfg) (\<lambda>ready.
          if \<not> ready then ret False
          else
            bnd (find_button br (grid_container cfg) add_button_selectors) (\<lambda>add_button.
            nxt (case add_button of
                   Some b \<Rightarrow> nxt (log INFO 312 []) (nxt (pw_click br b) (sleep br 2))
                 | None \<Rightarrow> log INFO 316 [])
            (let data_dict = to_dict td in
             bnd (pw_count br (data_rows cfg)) (\<lambda>row_count.
               if row_count > 0 then
                 (let last_row = Nth (data_rows cfg) (int row_count - 1) in
                  nxt (pw_click br last_row)
                  (nxt (sleep br (1 / 2))
                  (bnd (for_loop data_dict (create_field br cfg last_row) 0)
                     (\<lambda>success_count.
                        bnd (truediv success_count (length data_dict)) (\<lambda>success_rate.
                          if success_rate \<ge> 8 / 10 then
                            nxt (log INFO 345 [I (int success_count), I (int (length data_dict))])
                            (ret True)
                          else
                            nxt (log WARNING 348 [I (int success_count), I (int (length data_dict))])
                            (ret False))))))
               else nxt (log WARNING 332 []) (ret False)))))))
       (\<lambda>e. nxt (log ERROR 352 [X e]) (ret False))"

definition edit_test_data ::
  "('w, 'e) browser \<Rightarrow> web_config \<Rightarrow> row_identifier \<Rightarrow> test_data \<Rightarrow> ('w, bool) prog" where
  "edit_test_data br cfg rid td =
     try_except
       (nxt (log INFO 358 [])
       (bnd (find_grid_row br cfg rid) (\<lambda>found.
          case found of
            None \<Rightarrow> nxt (log ERROR 363 []) (ret False)
          | Some row_locator \<Rightarrow>
              nxt (pw_click br row_locator)
              (nxt (sleep br (1 / 2))
              (let data_dict = to_dict td in
               bnd (for_loop data_dict (edit_field br cfg row_locator) 0)
                 (\<lambda>success_count.
                    bnd (truediv success_count (length data_dict)) (\<lambda>success_rate.
                      if success_rate \<ge> 8 / 10 then
                        nxt (log INFO 387 [I (int success_count), I (int (length data_dict))])
                        (ret True)
                      else if success_count > 0 then
                        nxt (log WARNING 390 [I (int success_count), I (int (length data_dict))])
                        (ret True)
                      else nxt (log ERROR 393 []) (ret False))))))))
       (\<lambda>e. nxt (log ERROR 397 [X e]) (ret False))"

definition confirm_buttons :: locator where
  "confirm_buttons =
     Page_locator (Css (''button:has-text(\"''
       @ [CHR 0xE7, CHR 0xA2, CHR 0xBA, CHR 0xE5, CHR 0xAE, CHR 0x9A]
       @ ''\"), button:has-text(\"OK\"), button:has-text(\"''
       @ [CHR 0xE6, CHR 0x98, CHR 0xAF] @ ''\")''))"

definition delete_test_data ::
  "('w, 'e) browser \<Rightarrow> web_config \<Rightarrow> row_identifier \<Rightarrow> ('w, bool) prog" where
  "delete_test_data br cfg rid =
     try_except
       (nxt (log INFO 403 [])
       (bnd (find_grid_row br cfg rid) (\<lambda>found.
          case found of
            None \<Rightarrow> nxt (log ERROR 408 []) (ret False)
          | Some row_locator \<Rightarrow>
              nxt (pw_click br row_locator)
              (nxt (sleep br (1 / 2))
              (bnd (find_button br (grid_container cfg) delete_button_selectors) (\<lambda>delete_button.
                 case delete_button of
                   Some b \<Rightarrow>
                     nxt (pw_click br b)
                     (nxt (log INFO 432 [])
                     (nxt (sleep br 2)
                     (bnd (pw_count br confirm_buttons) (\<lambda>c.
                        nxt (if c > 0 then
                               nxt (pw_click br (first_loc confirm_buttons)) (log INFO 441 [])
                             else ret ())
                        (ret True)))))
                 | None \<Rightarrow> nxt (log ERROR 445 []) (ret False)))))))
       (\<lambda>e. nxt (log ERROR 449 [X e]) (ret False))"

subsection \<open>Reading the grid\<close>

text \<open>
  \<open>str.strip()\<close>. Text is kept as UTF-8 bytes; the white space stripped here is the
  ASCII part of what Python strips (tab to carriage return, the separators
  \<open>0x1C\<close> to \<open>0x1F\<close>, and the space).
\<close>

definition py_isspace :: "char \<Rightarrow> bool" where
  "py_isspace c = (c \<in> set [CHR 0x09, CHR 0x0A, CHR 0x0B, CHR 0x0C, CHR 0x0D,
                            CHR 0x1C, CHR 0x1D, CHR 0x1E, CHR 0x1F, CHR 0x20])"

definition py_strip :: "string \<Rightarrow> string" where
  "py_strip t = rev (dropWhile py_isspace (rev (dropWhile py_isspace t)))"

text \<open>\<open>str(n)\<close> for a natural number.\<close>

fun str_nat :: "nat \<Rightarrow> string" where
  "str_nat n =
     (if n < 10 then [char_of (48 + n)]
      else str_nat (n div 10) @ [char_of (48 + n mod 10)])"

declare str_nat.simps [simp del]

text \<open>The f-string that names a column whose header cannot be read: the two characters of "column" and the number.\<close>

definition column_label :: "nat \<Rightarrow> string" where
  "column_label k = [CHR 0xE6, CHR 0xAC, CHR 0x84, CHR 0xE4, CHR 0xBD, CHR 0x8D] @ str_nat k"

definition text_grid_not_ready :: string where
  "text_grid_not_ready =
     [CHR 0xE8, CHR 0xA1, CHR 0xA8, CHR 0xE6, CHR 0xA0, CHR 0xBC, CHR 0xE6, CHR 0x9C, CHR 0xAA,
      CHR 0xE6, CHR 0xBA, CHR 0x96, CHR 0xE5, CHR 0x82, CHR 0x99, CHR 0xE5, CHR 0xB0, CHR 0xB1,
      CHR 0xE7, CHR 0xB7, CHR 0x92]"

definition text_read_failed :: string where
  "text_read_failed =
     [CHR 0xE8, CHR 0xAE, CHR 0x80, CHR 0xE5, CHR 0x8F, CHR 0x96, CHR 0xE5, CHR 0xA4, CHR 0xB1,
      CHR 0xE6, CHR 0x95, CHR 0x97]"

text \<open>\<open>str(e)\<close>\<close>

fun str_exn :: "exn \<Rightarrow> string" where
  "str_exn (Driver_error m) = m"
| "str_exn ZeroDivisionError = ''division by zero''"

text \<open>
  The three dictionaries \<open>get_grid_info\<close> returns: \<open>{"error": ...}\<close> when the grid is
  not ready, \<open>{"row_count": n, "headers": hs, "grid_ready": True}\<close>, and
  \<open>{"error": str(e), "grid_ready": False}\<close> from the handler.
\<close>

datatype grid_info =
    Grid_not_ready
  | Grid_info nat "string list"
  | Grid_failed exn

text \<open>The body of \<open>for i in range(min(header_count, 6))\<close> (lines 185 to 190).\<close>

definition read_header ::
  "('w, 'e) browser \<Rightarrow> locator \<Rightarrow> nat \<Rightarrow> string list \<Rightarrow> ('w, string list) prog" where
  "read_header br header_cells i headers =
     try_except
       (bnd (pw_text_content br (Nth header_cells (int i))) (\<lambda>header_text.
          ret (headers @ [case header_text of
                            Some t \<Rightarrow> if t \<noteq> [] then py_strip t else column_label (i + 1)
                          | None \<Rightarrow> column_label (i + 1)])))
       (\<lambda>e. ret (headers @ [column_label (i + 1)]))"

definition get_grid_info :: "('w, 'e) browser \<Rightarrow> web_config \<Rightarrow> ('w, grid_info) prog" where
  "get_grid_info br cfg =
     try_except
       (bnd (wait_for_grid_ready br cfg) (\<lambda>ready.
          if \<not> ready then ret Grid_not_ready
          else
            bnd (pw_count br (data_rows cfg)) (\<lambda>row_count.
            bnd (pw_count br (header_row cfg)) (\<lambda>header_rows.
            bnd (if header_rows > 0 then
                   (let header_cells = Sub_locator (header_row cfg) (Css ''td'') in
                    bnd (pw_count br header_cells) (\<lambda>header_count.
                      for_loop [0..<min header_count 6] (read_header br header_cells) []))
                 else ret [])
              (\<lambda>headers.
                 nxt (log INFO 198 [I (int row_count), I (int (length headers))])
                 (ret (Grid_info row_count headers)))))))
       (\<lambda>e. nxt (log ERROR 202 [X e]) (ret (Grid_failed e)))"

text \<open>
  The three dictionaries \<open>view_test_data\<close> returns: \<open>{"success": False, "error": msg}\<close>,
  \<open>{"success": True, "row_count": 0, "headers": hs, "data": []}\<close> and
  \<open>{"success": True, "row_count": n, "headers": hs, "preview_count": k, "data": rows}\<close>.
\<close>

datatype view_result =
    View_failed string
  | View_empty "string list"
  | View_rows nat "string list" nat "string list list"

text \<open>The body of \<open>for j in range(min(cell_count, 6))\<close> (lines 486 to 491).\<close>

definition read_cell ::
  "('w, 'e) browser \<Rightarrow> locator \<Rightarrow> nat \<Rightarrow> string list \<Rightarrow> ('w, string list) prog" where
  "read_cell br cells j row_data =
     try_except
       (bnd (pw_text_content br (Nth cells (int j))) (\<lambda>cell_text.
          ret (row_data @ [case cell_text of
                             Some t \<Rightarrow> if t \<noteq> [] then py_strip t else []
                           | None \<Rightarrow> []])))
       (\<lambda>e. ret (row_data @ [[]]))"

text \<open>The body of \<open>for i in range(max_preview)\<close> (lines 479 to 497).\<close>

definition read_row ::
  "('w, 'e) browser \<Rightarrow> web_config \<Rightarrow> nat \<Rightarrow> string list list \<Rightarrow> ('w, string list list) prog" where
  "read_row br cfg i preview_data =
     try_except
       (let row = Nth (data_rows cfg) (int i); cells = Sub_locator row (Css ''td'') in
        bnd (pw_count br cells) (\<lambda>cell_count.
        bnd (for_loop [0..<min cell_count 6] (read_cell br cells) []) (\<lambda>row_data.
        ret (preview_data @ [row_data]))))
       (\<lambda>e. nxt (log WARNING 496 [I (int i + 1), X e])
            (ret (preview_data @ [replicate 6 text_read_failed])))"

definition view_test_data :: "('w, 'e) browser \<Rightarrow> web_config \<Rightarrow> ('w, view_result) prog" where
  "view_test_data br cfg =
     try_except
       (nxt (log INFO 455 [])
       (bnd (get_grid_info br cfg) (\<lambda>grid_info.
          case grid_info of
            Grid_info row_count headers \<Rightarrow>
              if row_count = 0 then nxt (log INFO 467 []) (ret (View_empty headers))
              else
                (let max_preview = min row_count 10 in
                 bnd (for_loop [0..<max_preview] (read_row br cfg) []) (\<lambda>preview_data.
                 nxt (log INFO 507 [I (int row_count)])
                 (ret (View_rows row_count headers (length preview_data) preview_data))))
          | Grid_not_ready \<Rightarrow> ret (View_failed text_grid_not_ready)
          | Grid_failed e \<Rightarrow> ret (View_failed text_grid_not_ready))))
       (\<lambda>e. nxt (log ERROR 511 [X e]) (ret (View_failed (str_exn e))))"

subsection \<open>Batches\<close>

text \<open>One entry of \<open>details\<close>: \<open>{"index": i, "status": ..., "data": test_data.to_dict()}\<close>.\<close>

record detail =
  item_index :: nat
  item_status :: string
  item_data :: "(string \<times> string) list"

text \<open>
  The dictionary \<open>batch_add_test_data\<close> returns. The keys \<open>success_rate\<close> and \<open>details\<close>
  are absent from the handler's dictionary and \<open>error\<close> from the regular one.
\<close>

record batch_result =
  batch_success :: bool
  batch_total :: nat
  batch_success_count :: nat
  batch_failed_count :: nat
  batch_success_rate :: "rat option"
  batch_details :: "detail list option"
  batch_error :: "string option"

text \<open>
  The body of \<open>for i, test_data in enumerate(test_data_list, 1)\<close> (lines 523 to 537);
  its local variables are \<open>success_count\<close>, \<open>failed_count\<close> and \<open>results\<close>, and \<open>n\<close>
  is \<open>len(test_data_list)\<close>.
\<close>

definition batch_item ::
  "('w, 'e) browser \<Rightarrow> web_config \<Rightarrow> nat \<Rightarrow> nat \<times> test_data \<Rightarrow> nat \<times> nat \<times> detail list \<Rightarrow>
     ('w, nat \<times> nat \<times> detail list) prog" where
  "batch_item br cfg n item acc =
     (case item of (i, td) \<Rightarrow> case acc of (success_count, failed_count, results) \<Rightarrow>
        nxt (log INFO 524 [I (int i), I (int n)])
        (bnd (add_new_test_data br cfg td) (\<lambda>success.
           let acc' =
             (if success then
                (success_count + 1, failed_count,
                 results @ [\<lparr>item_index = i, item_status = ''success'', item_data = to_dict td\<rparr>])
              else
                (success_count, failed_count + 1,
                 results @ [\<lparr>item_index = i, item_status = ''failed'', item_data = to_dict td\<rparr>]))
           in nxt (if i < n then sleep br 1 else ret ()) (ret acc'))))"

definition batch_add_test_data ::
  "('w, 'e) browser \<Rightarrow> web_config \<Rightarrow> test_data list \<Rightarrow> ('w, batch_result) prog" where
  "batch_add_test_data br cfg test_data_list =
     try_except
       (nxt (log INFO 517 [I (int (length test_data_list))])
       (bnd (for_loop (List.enumerate 1 test_data_list)
               (batch_item br cfg (length test_data_list)) (0, 0, []))
          (\<lambda>(success_count, failed_count, results).
             bnd (if test_data_list \<noteq> [] then truediv success_count (length test_data_list)
                  else ret 0)
               (\<lambda>success_rate.
                  nxt (log INFO 548 [I (int success_count), I (int (length test_data_list))])
                  (ret \<lparr>batch_success = (success_count > 0),
                        batch_total = length test_data_list,
                        batch_success_count = success_count,
                        batch_failed_count = failed_count,
                        batch_success_rate = Some success_rate,
                        batch_details = Some results,
                        batch_error = None\<rparr>)))))
       (\<lambda>e. nxt (log ERROR 552 [X e])
            (ret \<lparr>batch_success = False,
                  batch_total = length test_data_list,
                  batch_success_count = 0,
                  batch_failed_count = length test_data_list,
                  batch_success_rate = None,
                  batch_details = None,
                  batch_error = Some (str_exn e)\<rparr>))"

section \<open>Observations on a run\<close>

text \<open>
  A run of a program from a page state \<open>w\<close> is the triple of its result (an exception
  or a value), the page state it leaves and the effects it performed. The functions
  below read a list of effects.
\<close>

text \<open>The values interpolated by the logger call at line \<open>n\<close>, if the event is one.\<close>

fun log_line :: "nat \<Rightarrow> event \<Rightarrow> arg list option" where
  "log_line n (Log lvl m args) = (if m = n then Some args else None)"
| "log_line n (Sleep d) = None"
| "log_line n (Call c) = None"
| "log_line n (Raised c e) = None"

definition logs_at :: "nat \<Rightarrow> event list \<Rightarrow> arg list list" where
  "logs_at n evs = List.map_filter (log_line n) evs"

fun line_of :: "event \<Rightarrow> nat list" where
  "line_of (Log lvl m args) = [m]"
| "line_of (Sleep d) = []"
| "line_of (Call c) = []"
| "line_of (Raised c e) = []"

definition log_lines :: "event list \<Rightarrow> nat list" where
  "log_lines evs = concat (map line_of evs)"

fun is_raised :: "event \<Rightarrow> bool" where
  "is_raised (Raised c e) = True"
| "is_raised (Call c) = False"
| "is_raised (Sleep d) = False"
| "is_raised (Log lvl n args) = False"

text \<open>No driver call raised during the run.\<close>

definition no_fault :: "event list \<Rightarrow> bool" where
  "no_fault evs = list_all (\<lambda>ev. \<not> is_raised ev) evs"

text \<open>
  A cell edit is attempted where \<open>fill_single_cell\<close> passes its mapping check and logs
  the column name, the column index and the value (line 249); it is confirmed where
  \<open>fill_single_cell\<close> logs its success (line 280), just before it returns \<open>True\<close>.
\<close>

definition fill_attempts :: "event list \<Rightarrow> arg list list" where
  "fill_attempts evs = logs_at 249 evs"

definition fills_confirmed :: "event list \<Rightarrow> nat" where
  "fills_confirmed evs = length (logs_at 280 evs)"

text \<open>The warnings of \<open>fill_single_cell\<close> about a column name it does not know (line 245).\<close>

definition unknown_field_warnings :: "event list \<Rightarrow> arg list list" where
  "unknown_field_warnings evs = logs_at 245 evs"

text \<open>The attempt a dictionary item gives rise to: none if the field has no column.\<close>

definition attempt_of :: "web_config \<Rightarrow> string \<times> string \<Rightarrow> arg list list" where
  "attempt_of cfg item =
     (case item of (f, v) \<Rightarrow>
        case column_mapping cfg f of Some c \<Rightarrow> [[S f, I c, S v]] | None \<Rightarrow> [])"

text \<open>The lines at which \<open>fill_single_cell\<close> logs.\<close>

definition fill_lines :: "nat set" where
  "fill_lines = {245, 249, 255, 268, 280, 284}"

text \<open>
  What \<open>filter(has_text=t)\<close> keeps of the rows: every row if \<open>t\<close> is empty, else the
  rows whose text matches \<open>t\<close>.
\<close>

definition row_matches :: "('w, 'e) browser \<Rightarrow> 'w \<Rightarrow> string \<Rightarrow> 'e \<Rightarrow> bool" where
  "row_matches br w t e = (t = [] \<or> has_text_match br t (element_text br w e))"

text \<open>
  What a run of \<open>add_new_test_data\<close> that returns \<open>b\<close> leaves in its effects: either it
  stopped before the field loop (nothing attempted, no verdict logged), or it attempted
  every mapped field in the order of the dictionary and logged its verdict on the number
  of confirmed edits out of five.
\<close>

definition create_post :: "web_config \<Rightarrow> test_data \<Rightarrow> bool \<Rightarrow> event list \<Rightarrow> bool" where
  "create_post cfg td b evs =
     ((\<not> b \<and> logs_at 249 evs = [] \<and> logs_at 280 evs = [] \<and>
        logs_at 345 evs = [] \<and> logs_at 348 evs = []) \<or>
      (logs_at 249 evs = concat (map (attempt_of cfg) (to_dict td)) \<and>
       (if (8 / 10 :: rat) \<le> of_nat (length (logs_at 280 evs)) / 5
        then b \<and> logs_at 345 evs = [[I (int (length (logs_at 280 evs))), I 5]] \<and>
             logs_at 348 evs = []
        else \<not> b \<and> logs_at 345 evs = [] \<and>
             logs_at 348 evs = [[I (int (length (logs_at 280 evs))), I 5]])))"

text \<open>The lines at which the field loop of \<open>edit_test_data\<close> logs.\<close>

definition edit_lines :: "nat set" where
  "edit_lines = {245, 249, 255, 268, 280, 284, 376, 381}"

text \<open>The same for a run of \<open>edit_test_data\<close> that returns \<open>b\<close>, with its three verdicts.\<close>

definition edit_post :: "web_config \<Rightarrow> test_data \<Rightarrow> bool \<Rightarrow> event list \<Rightarrow> bool" where
  "edit_post cfg td b evs =
     ((\<not> b \<and> logs_at 249 evs = [] \<and> logs_at 280 evs = [] \<and>
        logs_at 387 evs = [] \<and> logs_at 390 evs = [] \<and> logs_at 393 evs = []) \<or>
      (logs_at 249 evs = concat (map (attempt_of cfg) (to_dict td)) \<and>
       (if (8 / 10 :: rat) \<le> of_nat (length (logs_at 280 evs)) / 5
        then b \<and> logs_at 387 evs = [[I (int (length (logs_at 280 evs))), I 5]] \<and>
             logs_at 390 evs = [] \<and> logs_at 393 evs = []
        else if 0 < length (logs_at 280 evs)
        then b \<and> logs_at 387 evs = [] \<and>
             logs_at 390 evs = [[I (int (length (logs_at 280 evs))), I 5]] \<and>
             logs_at 393 evs = []
        else \<not> b \<and> logs_at 387 evs = [] \<and> logs_at 390 evs = [] \<and>
             logs_at 393 evs = [[]])))"

text \<open>
  A run of \<open>add_new_test_data\<close> has reached its verdict if it logged one (the success
  at line 345 or the partial success at line 348); the verdict reports \<open>success_count\<close>
  and \<open>len(data_dict)\<close>. Likewise for \<open>edit_test_data\<close>, whose third verdict (line 393,
  no field updated) reports no numbers.
\<close>

definition create_decided :: "event list \<Rightarrow> bool" where
  "create_decided evs = (logs_at 345 evs \<noteq> [] \<or> logs_at 348 evs \<noteq> [])"

definition create_report :: "event list \<Rightarrow> arg list list" where
  "create_report evs = logs_at 345 evs @ logs_at 348 evs"

definition edit_decided :: "event list \<Rightarrow> bool" where
  "edit_decided evs = (logs_at 387 evs \<noteq> [] \<or> logs_at 390 evs \<noteq> [] \<or> logs_at 393 evs \<noteq> [])"

definition edit_report :: "event list \<Rightarrow> arg list list" where
  "edit_report evs = logs_at 387 evs @ logs_at 390 evs"

text \<open>The rate a verdict reports: the first number over the second.\<close>

fun rate_of_report :: "arg list \<Rightarrow> rat option" where
  "rate_of_report [I k, I n] = (if n = 0 then None else Some (of_int k / of_int n))"
| "rate_of_report args = None"

text \<open>The result and the effects of the run of a program from a page state.\<close>

definition result_of :: "('w, 'a) prog \<Rightarrow> 'w \<Rightarrow> exn + 'a" where
  "result_of m w = fst (m w)"

definition state_of :: "('w, 'a) prog \<Rightarrow> 'w \<Rightarrow> 'w" where
  "state_of m w = fst (snd (m w))"

definition effects_of :: "('w, 'a) prog \<Rightarrow> 'w \<Rightarrow> event list" where
  "effects_of m w = snd (snd (m w))"

subsection \<open>Batches, item by item\<close>

text \<open>The entry of \<open>details\<close> for item \<open>i\<close>, whose create returned \<open>ok\<close>.\<close>

definition detail_of :: "nat \<Rightarrow> bool \<Rightarrow> test_data \<Rightarrow> detail" where
  "detail_of i ok td =
     \<lparr>item_index = i, item_status = (if ok then ''success'' else ''failed''),
      item_data = to_dict td\<rparr>"

text \<open>
  The specification of a batch, in its words: create is invoked on each record in list
  order, each from the page state the one before it left, with a delay of 1 after every
  item but the last (\<open>n\<close> is the number of items, \<open>i\<close> the 1-based index of the next one).
  It gives, for each item, whether its create succeeded and the effects of that create.
\<close>

fun create_each ::
  "('w, 'e) browser \<Rightarrow> web_config \<Rightarrow> nat \<Rightarrow> nat \<Rightarrow> test_data list \<Rightarrow> 'w \<Rightarrow> (bool \<times> event list) list" where
  "create_each br cfg n i [] w = []"
| "create_each br cfg n i (td # tds) w =
     (case add_new_test_data br cfg td w of
        (r, w1, evs) \<Rightarrow>
          (r = Inr True, evs) #
            create_each br cfg n (i + 1) tds (if i < n then elapse br 1 w1 else w1))"

text \<open>
  The effects of the batch for item \<open>i\<close>: the progress log, the effects of its create,
  then the delay if another item follows.
\<close>

definition item_effects :: "nat \<Rightarrow> nat \<times> bool \<times> event list \<Rightarrow> event list" where
  "item_effects n p =
     (case p of (i, ok, evs) \<Rightarrow>
        Log INFO 524 [I (int i), I (int n)] # evs @ (if i < n then [Sleep 1] else []))"

subsection \<open>A page to run the code on\<close>

text \<open>The defaults of \<open>WebConfig\<close> in src/src/config.py.\<close>

definition default_web_config :: web_config where
  "default_web_config =
     \<lparr>sel_grid_container = ''[id$=\"Setting_GridViewPartial\"]'',
      sel_data_row = ''tr.dxgvDataRow_DEVMVC'',
      sel_header_row = ''tr.dxgvHeader_DEVMVC'',
      element_timeout = 10000,
      column_mapping =
        [key_part_number \<mapsto> 1, key_station \<mapsto> 2, key_version \<mapsto> 3,
         key_description \<mapsto> 4, key_mfgid_group \<mapsto> 5]\<rparr>"

definition ascii_lower :: "char \<Rightarrow> char" where
  "ascii_lower c =
     (case map_of (zip ''ABCDEFGHIJKLMNOPQRSTUVWXYZ'' ''abcdefghijklmnopqrstuvwxyz'') c of
        Some d \<Rightarrow> d | None \<Rightarrow> c)"

definition js_isspace :: "char \<Rightarrow> bool" where
  "js_isspace c = (c \<in> set [CHR 0x09, CHR 0x0A, CHR 0x0B, CHR 0x0C, CHR 0x0D, CHR 0x20])"

fun squeeze :: "string \<Rightarrow> string" where
  "squeeze [] = []"
| "squeeze [c] = [if js_isspace c then CHR 0x20 else c]"
| "squeeze (c # d # cs) =
     (if js_isspace c then (if js_isspace d then squeeze (d # cs) else CHR 0x20 # squeeze (d # cs))
      else c # squeeze (d # cs))"

definition ascii_normalize :: "string \<Rightarrow> string" where
  "ascii_normalize t = squeeze (rev (dropWhile js_isspace (rev (dropWhile js_isspace t))))"

text \<open>
  A static page for running the code on concrete inputs: its grid shows the data rows
  \<open>rows\<close> (an element is its text), the cell of column \<open>k\<close> exists where \<open>editable k\<close>,
  every other selector matches one node, and the driver calls in \<open>failing\<close> raise.
  Texts are ASCII, on which the two text functions are as in the browser.
\<close>

definition test_page ::
  "string list \<Rightarrow> (int \<Rightarrow> bool) \<Rightarrow> (call \<Rightarrow> bool) \<Rightarrow> (unit, string) browser" where
  "test_page rows editable failing =
     \<lparr>query_page = (\<lambda>w sel. [''page'']),
      query_within = (\<lambda>w scope sel.
        if scope = [] then []
        else (case sel of
                Td_nth_child k \<Rightarrow> if editable k then [''cell''] else []
              | Css c \<Rightarrow> if c = ''tr.dxgvDataRow_DEVMVC'' then rows else [''node''])),
      element_text = (\<lambda>w e. e),
      content_of = (\<lambda>w l. Some ''text''),
      normalize_space = ascii_normalize,
      lower_case = map ascii_lower,
      perform = (\<lambda>c w. if failing c then (Some (Driver_error ''Timeout exceeded''), w) else (None, w)),
      elapse = (\<lambda>d w. w)\<rparr>"

text \<open>A grid of two rows, and one whose two rows differ in letter case only.\<close>

definition two_row_page :: "(unit, string) browser" where
  "two_row_page = test_page [''row one'', ''row two''] (\<lambda>k. True) (\<lambda>c. False)"

definition mixed_case_page :: "(unit, string) browser" where
  "mixed_case_page = test_page [''ABC-100 FT'', ''abc-100 FT''] (\<lambda>k. True) (\<lambda>c. False)"

text \<open>A record, and configurations that map fewer columns.\<close>

definition sample_record :: test_data where
  "sample_record =
     \<lparr>part_number = ''ABC1234567'', station = ''FT'', version = ''V1.0.0.1'',
      description = ''Test board'', manufacturing_group = ''DEFAULT''\<rparr>"

definition four_column_config :: web_config where
  "four_column_config =
     default_web_config\<lparr>column_mapping :=
       [key_part_number \<mapsto> 1, key_station \<mapsto> 2, key_version \<mapsto> 3,
        key_description \<mapsto> 4]\<rparr>"

definition three_column_config :: web_config where
  "three_column_config =
     default_web_config\<lparr>column_mapping :=
       [key_part_number \<mapsto> 1, key_station \<mapsto> 2, key_version \<mapsto> 3]\<rparr>"


definition create_run_three_columns :: "(exn + bool) \<times> unit \<times> event list" where
  "create_run_three_columns =
     add_new_test_data (test_page [''row one''] (\<lambda>k. True) (\<lambda>c. False))
       three_column_config sample_record ()"

definition create_run_four_columns :: "(exn + bool) \<times> unit \<times> event list" where
  "create_run_four_columns =
     add_new_test_data (test_page [''row one''] (\<lambda>k. True) (\<lambda>c. False))
       four_column_config sample_record ()"

definition create_run_all_columns :: "(exn + bool) \<times> unit \<times> event list" where
  "create_run_all_columns =
     add_new_test_data (test_page [''row one''] (\<lambda>k. True) (\<lambda>c. False))
       default_web_config sample_record ()"



definition edit_run_no_columns :: "(exn + bool) \<times> unit \<times> event list" where
  "edit_run_no_columns =
     edit_test_data (test_page [''row one''] (\<lambda>k. True) (\<lambda>c. False))
       (default_web_config\<lparr>column_mapping := Map.empty\<rparr>) (Row_int 1) sample_record ()"

text \<open>
  A batch of three records on a page whose editor refuses the value \<open>BAD\<close>: the second
  record has two such values, so only three of its five edits are confirmed.
\<close>

definition bad_record :: test_data where
  "bad_record = sample_record\<lparr>version := ''BAD'', description := ''BAD''\<rparr>"

definition refuses_bad :: "call \<Rightarrow> bool" where
  "refuses_bad c = (case c of Fill l v \<Rightarrow> v = ''BAD'' | _ \<Rightarrow> False)"

definition batch_run_three :: "(exn + batch_result) \<times> unit \<times> event list" where
  "batch_run_three =
     batch_add_test_data (test_page [''row one''] (\<lambda>k. True) refuses_bad)
       default_web_config [sample_record, bad_record, sample_record] ()"

text \<open>A page on which every driver call raises.\<close>

definition broken_page :: "(unit, string) browser" where
  "broken_page = test_page [''row one''] (\<lambda>k. True) (\<lambda>c. True)"

subsection \<open>Postconditions of runs\<close>

text \<open>\<open>run_sat m w Q\<close>: the run of \<open>m\<close> from \<open>w\<close> satisfies \<open>Q\<close>.\<close>

definition run_sat ::
  "('w, 'a) prog \<Rightarrow> 'w \<Rightarrow> ((exn + 'a) \<Rightarrow> 'w \<Rightarrow> event list \<Rightarrow> bool) \<Rightarrow> bool" where
  "run_sat m w Q = (case m w of (r, w', evs) \<Rightarrow> Q r w' evs)"

section \<open>Properties\<close>

subsection \<open>Reading effects\<close>

lemma logs_at_Nil [simp]: "logs_at n [] = []"
  by (simp add: logs_at_def map_filter_simps)

lemma logs_at_Cons [simp]:
  "logs_at n (ev # evs) =
     (case log_line n ev of Some a \<Rightarrow> a # logs_at n evs | None \<Rightarrow> logs_at n evs)"
  by (simp add: logs_at_def map_filter_simps split: option.splits)

lemma logs_at_append [simp]: "logs_at n (xs @ ys) = logs_at n xs @ logs_at n ys"
  by (induction xs) (auto split: option.splits)

lemma log_lines_simps [simp]:
  "log_lines [] = []"
  "log_lines (ev # evs) = line_of ev @ log_lines evs"
  "log_lines (xs @ ys) = log_lines xs @ log_lines ys"
  by (simp_all add: log_lines_def)

lemma logs_at_outside: "n \<notin> set (log_lines evs) \<Longrightarrow> logs_at n evs = []"
proof (induction evs)
  case Nil
  then show ?case by simp
next
  case (Cons ev evs)
  then show ?case by (cases ev) auto
qed

lemma no_fault_simps [simp]:
  "no_fault [] = True"
  "no_fault (ev # evs) = (\<not> is_raised ev \<and> no_fault evs)"
  "no_fault (xs @ ys) = (no_fault xs \<and> no_fault ys)"
  by (simp_all add: no_fault_def)

subsection \<open>The \<open>nth\<close> engine\<close>

lemma pw_nth_beyond: "int (length xs) \<le> i \<Longrightarrow> pw_nth xs i = []"
  by (auto simp: pw_nth_def js_slice_def Let_def)

lemma pw_nth_last: "xs \<noteq> [] \<Longrightarrow> pw_nth xs (- 1) = [last xs]"
proof (cases xs rule: rev_cases)
  case Nil
  assume "xs \<noteq> []"
  with Nil show ?thesis by simp
next
  case (snoc ys y)
  then show ?thesis
    by (simp add: pw_nth_def js_slice_def Let_def)
qed

lemma pw_nth_first: "pw_nth xs 0 = take 1 xs"
  by (cases xs) (simp_all add: pw_nth_def js_slice_def Let_def)

lemma take_1_filter:
  "take 1 (filter P xs) = (case List.find P xs of None \<Rightarrow> [] | Some e \<Rightarrow> [e])"
  by (induction xs) auto

lemma resolve_first_has_text:
  "resolve br w (first_loc (Filter_has_text l t)) =
     (case List.find (row_matches br w t) (resolve br w l) of None \<Rightarrow> [] | Some e \<Rightarrow> [e])"
proof (cases "t = []")
  case True
  then have "filter (row_matches br w t) (resolve br w l) = resolve br w l"
    by (simp add: row_matches_def)
  with True show ?thesis
    using take_1_filter [of "row_matches br w t" "resolve br w l"]
    by (simp add: first_loc_def pw_nth_first)
next
  case False
  then have "(\<lambda>e. has_text_match br t (element_text br w e)) = row_matches br w t"
    by (simp add: row_matches_def fun_eq_iff)
  with False show ?thesis
    using take_1_filter [of "row_matches br w t" "resolve br w l"]
    by (simp add: first_loc_def pw_nth_first)
qed

lemmas monad_defs = ret_def bnd_def nxt_def try_except_def log_def sleep_def driver_def
  pw_count_def pw_wait_for_def pw_click_def pw_dblclick_def pw_fill_def pw_press_def truediv_def

lemmas test_defs = two_row_page_def mixed_case_page_def test_page_def default_web_config_def data_rows_def grid_container_def
  header_row_def first_loc_def pw_nth_def js_slice_def

subsection \<open>Rules for postconditions\<close>

lemma run_satI: "(\<And>r w' evs. m w = (r, w', evs) \<Longrightarrow> Q r w' evs) \<Longrightarrow> run_sat m w Q"
  by (auto simp: run_sat_def)

lemma run_satD: "run_sat m w Q \<Longrightarrow> m w = (r, w', evs) \<Longrightarrow> Q r w' evs"
  by (auto simp: run_sat_def)

lemma run_sat_run: "run_sat m w (\<lambda>r w' evs. m w = (r, w', evs))"
  by (simp add: run_sat_def split: prod.splits)

lemma run_sat_projections:
  "run_sat m w Q = Q (result_of m w) (state_of m w) (effects_of m w)"
  by (simp add: run_sat_def result_of_def state_of_def effects_of_def split: prod.splits)

lemma run_projections:
  "m w = (result_of m w, state_of m w, effects_of m w)"
  by (simp add: result_of_def state_of_def effects_of_def)

lemma run_sat_conseq:
  "run_sat m w P \<Longrightarrow> (\<And>r w' evs. P r w' evs \<Longrightarrow> Q r w' evs) \<Longrightarrow> run_sat m w Q"
  by (auto simp: run_sat_def)

lemma run_sat_conj:
  "run_sat m w P \<Longrightarrow> run_sat m w Q \<Longrightarrow> run_sat m w (\<lambda>r w' evs. P r w' evs \<and> Q r w' evs)"
  by (auto simp: run_sat_def)

lemma run_sat_ret: "run_sat (ret a) w Q = Q (Inr a) w []"
  by (simp add: run_sat_def ret_def)

lemma run_sat_log: "run_sat (log lvl n args) w Q = Q (Inr ()) w [Log lvl n args]"
  by (simp add: run_sat_def log_def)

lemma run_sat_sleep: "run_sat (sleep br d) w Q = Q (Inr ()) (elapse br d w) [Sleep d]"
  by (simp add: run_sat_def sleep_def)

lemma run_sat_driver:
  "run_sat (driver br c) w Q =
     (case perform br c w of
        (None, w1) \<Rightarrow> Q (Inr ()) w1 [Call c]
      | (Some e, w1) \<Rightarrow> Q (Inl e) w1 [Raised c e])"
  by (simp add: run_sat_def driver_def split: prod.splits option.splits)

lemma run_sat_count:
  "run_sat (pw_count br l) w Q =
     (case perform br (Count l) w of
        (None, w1) \<Rightarrow> Q (Inr (length (resolve br w1 l))) w1 [Call (Count l)]
      | (Some e, w1) \<Rightarrow> Q (Inl e) w1 [Raised (Count l) e])"
  by (simp add: run_sat_def pw_count_def driver_def split: prod.splits option.splits)

lemma run_sat_text_content:
  "run_sat (pw_text_content br l) w Q =
     (case perform br (Text_content l) w of
        (None, w1) \<Rightarrow> Q (Inr (content_of br w1 l)) w1 [Call (Text_content l)]
      | (Some e, w1) \<Rightarrow> Q (Inl e) w1 [Raised (Text_content l) e])"
  by (simp add: run_sat_def pw_text_content_def driver_def split: prod.splits option.splits)

lemma run_sat_truediv:
  "run_sat (truediv a b) w Q =
     (if b = 0 then Q (Inl ZeroDivisionError) w [] else Q (Inr (of_nat a / of_nat b)) w [])"
  by (simp add: run_sat_def truediv_def)

lemma run_sat_bnd:
  "run_sat (bnd m f) w Q =
     run_sat m w (\<lambda>r w1 evs. case r of
         Inl e \<Rightarrow> Q (Inl e) w1 evs
       | Inr a \<Rightarrow> run_sat (f a) w1 (\<lambda>r2 w2 evs2. Q r2 w2 (evs @ evs2)))"
  by (simp add: run_sat_def bnd_def split: prod.splits sum.splits)

lemma run_sat_nxt:
  "run_sat (nxt m k) w Q =
     run_sat m w (\<lambda>r w1 evs. case r of
         Inl e \<Rightarrow> Q (Inl e) w1 evs
       | Inr a \<Rightarrow> run_sat k w1 (\<lambda>r2 w2 evs2. Q r2 w2 (evs @ evs2)))"
  by (simp add: nxt_def run_sat_bnd)

lemma run_sat_try:
  "run_sat (try_except m h) w Q =
     run_sat m w (\<lambda>r w1 evs. case r of
         Inl e \<Rightarrow> run_sat (h e) w1 (\<lambda>r2 w2 evs2. Q r2 w2 (evs @ evs2))
       | Inr a \<Rightarrow> Q (Inr a) w1 evs)"
  by (simp add: run_sat_def try_except_def split: prod.splits sum.splits)

lemma run_sat_if:
  "run_sat (if c then a else b) w Q = (if c then run_sat a w Q else run_sat b w Q)"
  by simp

lemma run_sat_case_option:
  "run_sat (case x of None \<Rightarrow> a | Some y \<Rightarrow> b y) w Q =
     (case x of None \<Rightarrow> run_sat a w Q | Some y \<Rightarrow> run_sat (b y) w Q)"
  by (simp split: option.splits)

lemmas run_sat_simps = run_sat_ret run_sat_log run_sat_sleep run_sat_driver run_sat_count
  run_sat_text_content run_sat_truediv run_sat_bnd run_sat_nxt run_sat_try run_sat_if
  run_sat_case_option pw_wait_for_def pw_click_def pw_dblclick_def pw_fill_def pw_press_def

subsection \<open>Cell edits and the field loop of create\<close>

lemma fill_single_cell_returns:
  "run_sat (fill_single_cell br cfg row f v) w (\<lambda>r w' evs. \<not> isl r)"
  unfolding fill_single_cell_def
  by (simp add: run_sat_simps Let_def split: prod.splits option.splits)

lemma fill_single_cell_attempt:
  "run_sat (fill_single_cell br cfg row f v) w (\<lambda>r w' evs.
     logs_at 249 evs = attempt_of cfg (f, v))"
  unfolding fill_single_cell_def attempt_of_def
  by (simp add: run_sat_simps Let_def split: prod.splits option.splits)

lemma fill_single_cell_confirm:
  "run_sat (fill_single_cell br cfg row f v) w (\<lambda>r w' evs.
     logs_at 280 evs = (if r = Inr True then [[S f]] else []))"
  unfolding fill_single_cell_def
  by (simp add: run_sat_simps Let_def split: prod.splits option.splits)

lemma fill_single_cell_lines:
  "run_sat (fill_single_cell br cfg row f v) w (\<lambda>r w' evs. set (log_lines evs) \<subseteq> fill_lines)"
  unfolding fill_single_cell_def
  by (simp add: run_sat_simps Let_def fill_lines_def split: prod.splits option.splits)

lemmas fill_single_cell_sat =
  run_sat_conj [OF fill_single_cell_returns
    run_sat_conj [OF fill_single_cell_attempt
      run_sat_conj [OF fill_single_cell_confirm fill_single_cell_lines]]]

lemma create_field_sat:
  "run_sat (create_field br cfg row item k) w (\<lambda>r w' evs.
     r = Inr (k + length (logs_at 280 evs)) \<and>
     logs_at 249 evs = attempt_of cfg item \<and>
     set (log_lines evs) \<subseteq> fill_lines)"
proof (cases item)
  case (Pair f v)
  show ?thesis
  proof (cases "column_mapping cfg f")
    case None
    with Pair show ?thesis
      by (simp add: create_field_def run_sat_simps attempt_of_def)
  next
    case (Some c)
    show ?thesis
      unfolding Pair create_field_def
      apply (simp add: Some run_sat_bnd)
      apply (rule run_sat_conseq [OF fill_single_cell_sat])
      apply (auto simp: run_sat_ret split: sum.splits)
      done
  qed
qed

lemma create_loop_sat:
  "run_sat (for_loop items (create_field br cfg row) k) w (\<lambda>r w' evs.
     r = Inr (k + length (logs_at 280 evs)) \<and>
     logs_at 249 evs = concat (map (attempt_of cfg) items) \<and>
     set (log_lines evs) \<subseteq> fill_lines)"
proof (induction items arbitrary: k w)
  case Nil
  show ?case by (simp add: run_sat_simps)
next
  case (Cons item items)
  show ?case
    apply (simp add: run_sat_bnd)
    apply (rule run_sat_conseq [OF create_field_sat])
    apply clarsimp
    apply (rule run_sat_conseq [OF Cons.IH])
    apply auto
    done
qed

lemma wait_for_grid_ready_sat:
  "run_sat (wait_for_grid_ready br cfg) w (\<lambda>r w' evs.
     \<not> isl r \<and> (\<forall>n. n \<noteq> 151 \<and> n \<noteq> 162 \<and> n \<noteq> 166 \<longrightarrow> logs_at n evs = []))"
  unfolding wait_for_grid_ready_def
  by (simp add: run_sat_simps split: prod.splits option.splits)

lemma wait_for_grid_ready_rule:
  "(\<And>b w' evs. (\<forall>n. n \<noteq> 151 \<and> n \<noteq> 162 \<and> n \<noteq> 166 \<longrightarrow> logs_at n evs = []) \<Longrightarrow> Q (Inr b) w' evs)
     \<Longrightarrow> run_sat (wait_for_grid_ready br cfg) w Q"
  apply (rule run_sat_conseq [OF wait_for_grid_ready_sat])
  subgoal for r w' evs by (cases r) auto
  done

lemma find_button_sat:
  "run_sat (find_button br c sels) w (\<lambda>r w' evs. \<forall>n. logs_at n evs = [])"
proof (induction sels arbitrary: w)
  case Nil
  show ?case by (simp add: run_sat_simps)
next
  case (Cons sel sels)
  show ?case
    by (auto simp: run_sat_simps Let_def split: prod.splits option.splits
        intro: run_sat_conseq [OF Cons.IH])
qed

lemma find_button_rule:
  "(\<And>r w' evs. (\<forall>n. logs_at n evs = []) \<Longrightarrow> Q r w' evs)
     \<Longrightarrow> run_sat (find_button br c sels) w Q"
  by (rule run_sat_conseq [OF find_button_sat])

lemma create_loop_rule:
  "(\<And>k w' evs. logs_at 249 evs = concat (map (attempt_of cfg) items) \<Longrightarrow>
       (\<forall>n. n \<notin> fill_lines \<longrightarrow> logs_at n evs = []) \<Longrightarrow>
       k = k0 + length (logs_at 280 evs) \<Longrightarrow> Q (Inr k) w' evs)
     \<Longrightarrow> run_sat (for_loop items (create_field br cfg row) k0) w Q"
proof (rule run_sat_conseq [OF create_loop_sat])
  fix r :: "exn + nat" and w' :: 'a and evs
  assume rule: "\<And>k w' evs. logs_at 249 evs = concat (map (attempt_of cfg) items) \<Longrightarrow>
       (\<forall>n. n \<notin> fill_lines \<longrightarrow> logs_at n evs = []) \<Longrightarrow>
       k = k0 + length (logs_at 280 evs) \<Longrightarrow> Q (Inr k) w' evs"
    and post: "r = Inr (k0 + length (logs_at 280 evs)) \<and>
       logs_at 249 evs = concat (map (attempt_of cfg) items) \<and>
       set (log_lines evs) \<subseteq> fill_lines"
  from post have "\<forall>n. n \<notin> fill_lines \<longrightarrow> logs_at n evs = []"
    by (auto intro: logs_at_outside)
  with post rule show "Q r w' evs" by blast
qed

subsection \<open>Runs of create\<close>

lemma fill_lines_simps [simp]:
  "345 \<notin> fill_lines" "348 \<notin> fill_lines" "387 \<notin> fill_lines" "390 \<notin> fill_lines"
  "393 \<notin> fill_lines" "376 \<notin> fill_lines" "381 \<notin> fill_lines"
  by (simp_all add: fill_lines_def)

lemma length_to_dict [simp]: "length (to_dict td) = 5"
  by (simp add: to_dict_def)

lemma find_button_cases:
  "(\<And>e w' evs. (\<forall>n. logs_at n evs = []) \<Longrightarrow> Q (Inl e) w' evs) \<Longrightarrow>
   (\<And>a w' evs. (\<forall>n. logs_at n evs = []) \<Longrightarrow> Q (Inr a) w' evs) \<Longrightarrow>
   run_sat (find_button br c sels) w Q"
  apply (rule run_sat_conseq [OF find_button_sat])
  subgoal for r w' evs by (cases r) auto
  done

lemma add_new_test_data_sat:
  "run_sat (add_new_test_data br cfg td) w (\<lambda>r w' evs.
     case r of Inl e \<Rightarrow> False | Inr b \<Rightarrow> create_post cfg td b evs)"
  unfolding add_new_test_data_def
  by (auto intro!: wait_for_grid_ready_rule find_button_cases create_loop_rule
      simp: run_sat_simps Let_def create_post_def split: option.splits prod.splits)

subsection \<open>Runs of edit\<close>

lemma find_grid_row_sat:
  "run_sat (find_grid_row br cfg rid) w (\<lambda>r w' evs.
     \<not> isl r \<and> (\<forall>n. 240 \<le> n \<longrightarrow> logs_at n evs = []))"
  unfolding find_grid_row_def
  by (cases rid)
    (auto intro!: wait_for_grid_ready_rule
      simp: run_sat_simps Let_def split: option.splits prod.splits)

lemma find_grid_row_rule:
  "(\<And>a w' evs. (\<forall>n. 240 \<le> n \<longrightarrow> logs_at n evs = []) \<Longrightarrow> Q (Inr a) w' evs)
     \<Longrightarrow> run_sat (find_grid_row br cfg rid) w Q"
  apply (rule run_sat_conseq [OF find_grid_row_sat])
  subgoal for r w' evs by (cases r) auto
  done

lemma edit_field_sat:
  "run_sat (edit_field br cfg row item k) w (\<lambda>r w' evs.
     r = Inr (k + length (logs_at 280 evs)) \<and>
     logs_at 249 evs = attempt_of cfg item \<and>
     set (log_lines evs) \<subseteq> edit_lines)"
proof (cases item)
  case (Pair f v)
  show ?thesis
  proof (cases "column_mapping cfg f")
    case None
    with Pair show ?thesis
      by (simp add: edit_field_def run_sat_simps attempt_of_def)
  next
    case (Some c)
    show ?thesis
      unfolding Pair edit_field_def
      apply (simp add: Some run_sat_bnd run_sat_nxt run_sat_log)
      apply (rule run_sat_conseq [OF fill_single_cell_sat])
      apply (auto simp: run_sat_simps edit_lines_def fill_lines_def split: sum.splits)
      done
  qed
qed

lemma edit_loop_sat:
  "run_sat (for_loop items (edit_field br cfg row) k) w (\<lambda>r w' evs.
     r = Inr (k + length (logs_at 280 evs)) \<and>
     logs_at 249 evs = concat (map (attempt_of cfg) items) \<and>
     set (log_lines evs) \<subseteq> edit_lines)"
proof (induction items arbitrary: k w)
  case Nil
  show ?case by (simp add: run_sat_simps)
next
  case (Cons item items)
  show ?case
    apply (simp add: run_sat_bnd)
    apply (rule run_sat_conseq [OF edit_field_sat])
    apply clarsimp
    apply (rule run_sat_conseq [OF Cons.IH])
    apply auto
    done
qed

lemma edit_loop_rule:
  assumes "\<And>k w' evs. logs_at 249 evs = concat (map (attempt_of cfg) items) \<Longrightarrow>
       (\<forall>n. n \<notin> edit_lines \<longrightarrow> logs_at n evs = []) \<Longrightarrow>
       k = k0 + length (logs_at 280 evs) \<Longrightarrow> Q (Inr k) w' evs"
  shows "run_sat (for_loop items (edit_field br cfg row) k0) w Q"
proof (rule run_sat_conseq [OF edit_loop_sat])
  fix r :: "exn + nat" and w' :: 'a and evs
  assume post: "r = Inr (k0 + length (logs_at 280 evs)) \<and>
       logs_at 249 evs = concat (map (attempt_of cfg) items) \<and>
       set (log_lines evs) \<subseteq> edit_lines"
  from post have "\<forall>n. n \<notin> edit_lines \<longrightarrow> logs_at n evs = []"
    by (auto intro: logs_at_outside)
  with post assms show "Q r w' evs" by blast
qed

lemma edit_lines_simps [simp]:
  "387 \<notin> edit_lines" "390 \<notin> edit_lines" "393 \<notin> edit_lines"
  by (simp_all add: edit_lines_def)

lemma edit_test_data_sat:
  "run_sat (edit_test_data br cfg rid td) w (\<lambda>r w' evs.
     case r of Inl e \<Rightarrow> False | Inr b \<Rightarrow> edit_post cfg td b evs)"
  unfolding edit_test_data_def
  by (auto intro!: find_grid_row_rule edit_loop_rule
      simp: run_sat_simps Let_def edit_post_def split: option.splits prod.splits)

subsection \<open>Confirmed edits are attempted edits\<close>

lemma attempt_of_length: "length (attempt_of cfg item) \<le> 1"
  by (cases item) (simp add: attempt_of_def split: option.splits)

lemma create_field_bound:
  "run_sat (create_field br cfg row item k) w (\<lambda>r w' evs.
     length (logs_at 280 evs) \<le> length (logs_at 249 evs))"
proof (cases item)
  case (Pair f v)
  show ?thesis
  proof (cases "column_mapping cfg f")
    case None
    with Pair show ?thesis
      by (simp add: create_field_def run_sat_simps)
  next
    case (Some c)
    show ?thesis
      unfolding Pair create_field_def
      apply (simp add: Some run_sat_bnd)
      apply (rule run_sat_conseq [OF fill_single_cell_sat])
      apply (auto simp: run_sat_ret attempt_of_def Some split: sum.splits)
      done
  qed
qed

lemma edit_field_bound:
  "run_sat (edit_field br cfg row item k) w (\<lambda>r w' evs.
     length (logs_at 280 evs) \<le> length (logs_at 249 evs))"
proof (cases item)
  case (Pair f v)
  show ?thesis
  proof (cases "column_mapping cfg f")
    case None
    with Pair show ?thesis
      by (simp add: edit_field_def run_sat_simps)
  next
    case (Some c)
    show ?thesis
      unfolding Pair edit_field_def
      apply (simp add: Some run_sat_bnd run_sat_nxt run_sat_log)
      apply (rule run_sat_conseq [OF fill_single_cell_sat])
      apply (auto simp: run_sat_simps attempt_of_def Some split: sum.splits)
      done
  qed
qed

lemma for_loop_bound:
  assumes body: "\<And>item k w. run_sat (body item k) w (\<lambda>r w' evs.
     length (logs_at 280 evs) \<le> length (logs_at 249 evs))"
  shows "run_sat (for_loop items body k) w (\<lambda>r w' evs.
     length (logs_at 280 evs) \<le> length (logs_at 249 evs))"
proof (induction items arbitrary: k w)
  case Nil
  show ?case by (simp add: run_sat_simps)
next
  case (Cons item items)
  show ?case
    apply (simp add: run_sat_bnd)
    apply (rule run_sat_conseq [OF body])
    apply (clarsimp split: sum.splits)
    apply (rule run_sat_conseq [OF Cons.IH])
    apply auto
    done
qed

lemma for_loop_bound_rule:
  assumes body: "\<And>item k w. run_sat (body item k) w (\<lambda>r w' evs.
     length (logs_at 280 evs) \<le> length (logs_at 249 evs))"
    and "\<And>r w' evs. length (logs_at 280 evs) \<le> length (logs_at 249 evs) \<Longrightarrow> Q r w' evs"
  shows "run_sat (for_loop items body k) w Q"
  using assms(2) by (rule run_sat_conseq [OF for_loop_bound [of body, OF body]])

lemma add_new_test_data_bound:
  "run_sat (add_new_test_data br cfg td) w (\<lambda>r w' evs.
     length (logs_at 280 evs) \<le> length (logs_at 249 evs))"
  unfolding add_new_test_data_def
  by (auto intro!: wait_for_grid_ready_rule find_button_cases
        for_loop_bound_rule [of "create_field br cfg _", OF create_field_bound]
      simp: run_sat_simps Let_def split: option.splits prod.splits sum.splits)

lemma edit_test_data_bound:
  "run_sat (edit_test_data br cfg rid td) w (\<lambda>r w' evs.
     length (logs_at 280 evs) \<le> length (logs_at 249 evs))"
  unfolding edit_test_data_def
  by (auto intro!: find_grid_row_rule
        for_loop_bound_rule [of "edit_field br cfg _", OF edit_field_bound]
      simp: run_sat_simps Let_def split: option.splits prod.splits sum.splits)

subsection \<open>What a run of create or edit leaves\<close>

lemma create_facts:
  assumes "add_new_test_data br cfg td w = (r, w', evs)"
  shows "case r of Inl e \<Rightarrow> False | Inr b \<Rightarrow> create_post cfg td b evs"
    and "length (logs_at 280 evs) \<le> length (logs_at 249 evs)"
  using run_satD [OF add_new_test_data_sat assms] run_satD [OF add_new_test_data_bound assms]
  by simp_all

lemma edit_facts:
  assumes "edit_test_data br cfg rid td w = (r, w', evs)"
  shows "case r of Inl e \<Rightarrow> False | Inr b \<Rightarrow> edit_post cfg td b evs"
    and "length (logs_at 280 evs) \<le> length (logs_at 249 evs)"
  using run_satD [OF edit_test_data_sat assms] run_satD [OF edit_test_data_bound assms]
  by simp_all

lemmas obs_defs = create_post_def edit_post_def create_decided_def edit_decided_def
  create_report_def edit_report_def fills_confirmed_def fill_attempts_def

lemma no_attempt_no_confirm:
  "length (logs_at 280 evs) \<le> length (logs_at 249 evs) \<Longrightarrow> fill_attempts evs = [] \<Longrightarrow>
     logs_at 280 evs = []"
  by (simp add: fill_attempts_def)

subsection \<open>No operation raises\<close>

lemma not_isl_iff: "(\<not> isl r) = (\<exists>b. r = Inr b)"
  by (cases r) auto

lemma returns_cases:
  "run_sat m w (\<lambda>r w' evs. \<not> isl r) \<Longrightarrow> (\<And>a w' evs. Q (Inr a) w' evs) \<Longrightarrow> run_sat m w Q"
  apply (erule run_sat_conseq)
  subgoal for r w' evs by (cases r) auto
  done

lemma for_loop_returns:
  assumes body: "\<And>x acc w. run_sat (body x acc) w (\<lambda>r w' evs. \<not> isl r)"
  shows "run_sat (for_loop xs body acc) w (\<lambda>r w' evs. \<not> isl r)"
proof (induction xs arbitrary: acc w)
  case Nil
  show ?case by (simp add: run_sat_simps)
next
  case (Cons x xs)
  show ?case
    apply (simp add: run_sat_bnd)
    apply (rule returns_cases [OF body])
    apply simp
    apply (rule run_sat_conseq [OF Cons.IH])
    apply simp
    done
qed

lemma add_new_test_data_returns:
  "run_sat (add_new_test_data br cfg td) w (\<lambda>r w' evs. \<not> isl r)"
  by (rule run_sat_conseq [OF add_new_test_data_sat]) (simp split: sum.splits)

lemma edit_test_data_returns:
  "run_sat (edit_test_data br cfg rid td) w (\<lambda>r w' evs. \<not> isl r)"
  by (rule run_sat_conseq [OF edit_test_data_sat]) (simp split: sum.splits)

lemma delete_test_data_returns:
  "run_sat (delete_test_data br cfg rid) w (\<lambda>r w' evs. \<not> isl r)"
  unfolding delete_test_data_def
  by (auto intro!: find_grid_row_rule find_button_cases
      simp: run_sat_simps Let_def split: option.splits prod.splits)

lemma read_header_returns:
  "run_sat (read_header br cells i hs) w (\<lambda>r w' evs. \<not> isl r)"
  unfolding read_header_def
  by (simp add: run_sat_simps split: option.splits prod.splits)

lemma read_cell_returns:
  "run_sat (read_cell br cells j row_data) w (\<lambda>r w' evs. \<not> isl r)"
  unfolding read_cell_def
  by (simp add: run_sat_simps split: option.splits prod.splits)

lemma read_row_returns:
  "run_sat (read_row br cfg i preview) w (\<lambda>r w' evs. \<not> isl r)"
  unfolding read_row_def
  by (auto intro!: returns_cases [OF for_loop_returns [of "read_cell br _", OF read_cell_returns]]
      simp: run_sat_simps Let_def split: option.splits prod.splits)

lemma get_grid_info_returns:
  "run_sat (get_grid_info br cfg) w (\<lambda>r w' evs. \<not> isl r)"
  unfolding get_grid_info_def
  by (auto intro!: wait_for_grid_ready_rule
        returns_cases [OF for_loop_returns [of "read_header br _", OF read_header_returns]]
      simp: run_sat_simps Let_def split: option.splits prod.splits)

lemma view_test_data_returns:
  "run_sat (view_test_data br cfg) w (\<lambda>r w' evs. \<not> isl r)"
  unfolding view_test_data_def
  by (auto intro!: returns_cases [OF get_grid_info_returns]
        returns_cases [OF for_loop_returns [of "read_row br cfg", OF read_row_returns]]
      simp: run_sat_simps Let_def split: option.splits prod.splits grid_info.splits)

lemma batch_item_returns:
  "run_sat (batch_item br cfg n item acc) w (\<lambda>r w' evs. \<not> isl r)"
  unfolding batch_item_def
  by (cases item; cases acc)
     (auto intro!: returns_cases [OF add_new_test_data_returns]
      simp: run_sat_simps Let_def split: option.splits prod.splits)

lemma batch_add_test_data_returns:
  "run_sat (batch_add_test_data br cfg tds) w (\<lambda>r w' evs. \<not> isl r)"
  unfolding batch_add_test_data_def
  by (auto intro!: returns_cases [OF for_loop_returns [of "batch_item br cfg _", OF batch_item_returns]]
      simp: run_sat_simps Let_def split: option.splits prod.splits)

subsection \<open>The loop of a batch\<close>

lemma length_create_each [simp]: "length (create_each br cfg n i tds w) = length tds"
  by (induction tds arbitrary: i w) (auto split: prod.splits)

lemma create_result_cases:
  assumes "add_new_test_data br cfg td w = (r, w1, evs)"
  obtains b where "r = Inr b"
  using run_satD [OF add_new_test_data_returns assms] by (cases r) auto

lemma batch_item_run:
  "add_new_test_data br cfg td w = (Inr b, w1, evs1) \<Longrightarrow>
   batch_item br cfg n (i, td) (sc, fc, ds) w =
     (Inr (if b then (sc + 1, fc, ds @ [detail_of i True td])
           else (sc, fc + 1, ds @ [detail_of i False td])),
      (if i < n then elapse br 1 w1 else w1),
      Log INFO 524 [I (int i), I (int n)] # evs1 @ (if i < n then [Sleep 1] else []))"
  by (simp add: batch_item_def monad_defs detail_of_def Let_def)

lemma batch_loop:
  "for_loop (List.enumerate i tds) (batch_item br cfg n) (sc, fc, ds) w = (r, w', evs) \<Longrightarrow>
     r = Inr (sc + length (filter fst (create_each br cfg n i tds w)),
              fc + length (filter (\<lambda>p. \<not> fst p) (create_each br cfg n i tds w)),
              ds @ map (\<lambda>((j, td), (ok, ev)). detail_of j ok td)
                     (zip (List.enumerate i tds) (create_each br cfg n i tds w))) \<and>
     evs = concat (map (item_effects n) (List.enumerate i (create_each br cfg n i tds w)))"
proof (induction tds arbitrary: i sc fc ds w r w' evs)
  case Nil
  then show ?case by (simp add: ret_def)
next
  case (Cons td tds)
  obtain r1 w1 evs1 where run: "add_new_test_data br cfg td w = (r1, w1, evs1)"
    by (cases "add_new_test_data br cfg td w") auto
  then obtain b where b: "r1 = Inr b"
    by (rule create_result_cases)
  let ?w2 = "if i < n then elapse br 1 w1 else w1"
  let ?acc = "if b then (sc + 1, fc, ds @ [detail_of i True td])
              else (sc, fc + 1, ds @ [detail_of i False td])"
  obtain r2 w3 evs2 where rest:
    "for_loop (List.enumerate (Suc i) tds) (batch_item br cfg n) ?acc ?w2 = (r2, w3, evs2)"
    by (cases "for_loop (List.enumerate (Suc i) tds) (batch_item br cfg n) ?acc ?w2") auto
  have step: "r = r2 \<and> evs = (Log INFO 524 [I (int i), I (int n)] # evs1 @
                (if i < n then [Sleep 1] else [])) @ evs2"
    using Cons.prems rest batch_item_run [OF run [unfolded b], of n i sc fc ds]
    by (simp add: bnd_def)
  show ?case
  proof (cases b)
    case True
    with rest have "for_loop (List.enumerate (Suc i) tds) (batch_item br cfg n)
        (sc + 1, fc, ds @ [detail_of i True td]) ?w2 = (r2, w3, evs2)" by simp
    from Cons.IH [OF this] step run b True show ?thesis
      by (simp add: item_effects_def)
  next
    case False
    with rest have "for_loop (List.enumerate (Suc i) tds) (batch_item br cfg n)
        (sc, fc + 1, ds @ [detail_of i False td]) ?w2 = (r2, w3, evs2)" by simp
    from Cons.IH [OF this] step run b False show ?thesis
      by (simp add: item_effects_def)
  qed
qed


lemma map_zip_fst_only:
  "length xs = length ys \<Longrightarrow> map (\<lambda>(a, b). g a) (zip xs ys) = map g xs"
  by (induction xs ys rule: list_induct2) auto

lemma details_index:
  "map (item_index \<circ> (\<lambda>((j, td), (ok, ev)). detail_of j ok td))
      (zip (List.enumerate i tds) (create_each br cfg n i tds w)) = [i..<i + length tds]"
proof -
  have "map (item_index \<circ> (\<lambda>((j, td), (ok, ev)). detail_of j ok td))
      (zip (List.enumerate i tds) (create_each br cfg n i tds w)) =
      map (\<lambda>(a, b). fst a) (zip (List.enumerate i tds) (create_each br cfg n i tds w))"
    by (auto simp: detail_of_def)
  also have "\<dots> = map fst (List.enumerate i tds)"
    by (rule map_zip_fst_only) simp
  finally show ?thesis by simp
qed

lemma map_to_dict_snd:
  "map (\<lambda>a. to_dict (snd a)) (xs :: (nat \<times> test_data) list) = map to_dict (map snd xs)"
  by (simp add: comp_def)

lemma details_data:
  "map (item_data \<circ> (\<lambda>((j, td), (ok, ev)). detail_of j ok td))
      (zip (List.enumerate i tds) (create_each br cfg n i tds w)) = map to_dict tds"
proof -
  have "map (item_data \<circ> (\<lambda>((j, td), (ok, ev)). detail_of j ok td))
      (zip (List.enumerate i tds) (create_each br cfg n i tds w)) =
      map (\<lambda>(a, b). to_dict (snd a)) (zip (List.enumerate i tds) (create_each br cfg n i tds w))"
    by (auto simp: detail_of_def)
  also have "\<dots> = map (\<lambda>a. to_dict (snd a)) (List.enumerate i tds)"
    by (rule map_zip_fst_only) simp
  also have "\<dots> = map to_dict (map snd (List.enumerate i tds))"
    by (rule map_to_dict_snd)
  finally show ?thesis by simp
qed

subsection \<open>Create skips an unmapped field without a warning\<close>

lemma fill_single_cell_mapped_quiet:
  "column_mapping cfg f = Some c \<Longrightarrow>
   run_sat (fill_single_cell br cfg row f v) w (\<lambda>r w' evs. logs_at 245 evs = [])"
  unfolding fill_single_cell_def
  by (simp add: run_sat_simps Let_def split: prod.splits option.splits)

lemma create_field_quiet:
  "run_sat (create_field br cfg row item k) w (\<lambda>r w' evs. logs_at 245 evs = [])"
proof (cases item)
  case (Pair f v)
  show ?thesis
  proof (cases "column_mapping cfg f")
    case None
    with Pair show ?thesis
      by (simp add: create_field_def run_sat_simps)
  next
    case (Some c)
    show ?thesis
      unfolding Pair create_field_def
      apply (simp add: Some run_sat_bnd)
      apply (rule run_sat_conseq [OF fill_single_cell_mapped_quiet [OF Some]])
      apply (auto simp: run_sat_ret split: sum.splits)
      done
  qed
qed

lemma for_loop_quiet:
  assumes body: "\<And>item k w. run_sat (body item k) w (\<lambda>r w' evs. logs_at n evs = [])"
  shows "run_sat (for_loop items body k) w (\<lambda>r w' evs. logs_at n evs = [])"
proof (induction items arbitrary: k w)
  case Nil
  show ?case by (simp add: run_sat_simps)
next
  case (Cons item items)
  show ?case
    apply (simp add: run_sat_bnd)
    apply (rule run_sat_conseq [OF body])
    apply (clarsimp split: sum.splits)
    apply (rule run_sat_conseq [OF Cons.IH])
    apply auto
    done
qed

lemma for_loop_quiet_rule:
  assumes body: "\<And>item k w. run_sat (body item k) w (\<lambda>r w' evs. logs_at n evs = [])"
    and "\<And>r w' evs. logs_at n evs = [] \<Longrightarrow> Q r w' evs"
  shows "run_sat (for_loop items body k) w Q"
  using assms(2) by (rule run_sat_conseq [OF for_loop_quiet [of body, OF body]])

lemma add_new_test_data_quiet:
  "run_sat (add_new_test_data br cfg td) w (\<lambda>r w' evs. logs_at 245 evs = [])"
  unfolding add_new_test_data_def
  by (auto intro!: wait_for_grid_ready_rule find_button_cases
        for_loop_quiet_rule [of "create_field br cfg _", OF create_field_quiet]
      simp: run_sat_simps Let_def split: option.splits prod.splits sum.splits)

lemma create_quiet:
  assumes "add_new_test_data br cfg td w = (r, w', evs)"
  shows "unknown_field_warnings evs = []"
  using run_satD [OF add_new_test_data_quiet assms]
  by (simp add: unknown_field_warnings_def)

subsection \<open>The runs on the one-row grid, evaluated\<close>


lemma eval_three_columns:
  "case create_run_three_columns of (r, w, evs) \<Rightarrow>
     r = Inr False \<and> fills_confirmed evs = 3 \<and> length (fill_attempts evs) = 3 \<and>
     create_report evs = [[I 3, I 5]]"
  by code_simp

lemma eval_four_columns:
  "case create_run_four_columns of (r, w, evs) \<Rightarrow>
     r = Inr True \<and> fills_confirmed evs = 4 \<and> length (fill_attempts evs) = 4 \<and>
     create_decided evs"
  by code_simp

lemma eval_all_columns:
  "case create_run_all_columns of (r, w, evs) \<Rightarrow>
     r = Inr True \<and> create_decided evs \<and>
     fill_attempts evs =
       [[S key_part_number, I 1, S ''ABC1234567''], [S key_station, I 2, S ''FT''],
        [S key_version, I 3, S ''V1.0.0.1''], [S key_description, I 4, S ''Test board''],
        [S key_mfgid_group, I 5, S ''DEFAULT'']]"
  by code_simp



lemma eval_edit_no_columns:
  "case edit_run_no_columns of (r, w, evs) \<Rightarrow>
     r = Inr False \<and> fill_attempts evs = [] \<and> edit_decided evs"
  by code_simp

lemma run_triple: "p = (fst p, fst (snd p), snd (snd p))"
  by simp

lemma eval_create_on_refusing_page:
  "result_of (add_new_test_data (test_page [''row one''] (\<lambda>k. True) refuses_bad)
       default_web_config sample_record) () = Inr True"
  by code_simp

lemma eval_create_bad_on_refusing_page:
  "result_of (add_new_test_data (test_page [''row one''] (\<lambda>k. True) refuses_bad)
       default_web_config bad_record) () = Inr False"
  by code_simp

lemma create_each_three:
  "create_each (test_page [''row one''] (\<lambda>k. True) refuses_bad) default_web_config 3 1
       [sample_record, bad_record, sample_record] () =
     [(True, effects_of (add_new_test_data (test_page [''row one''] (\<lambda>k. True) refuses_bad)
          default_web_config sample_record) ()),
      (False, effects_of (add_new_test_data (test_page [''row one''] (\<lambda>k. True) refuses_bad)
          default_web_config bad_record) ()),
      (True, effects_of (add_new_test_data (test_page [''row one''] (\<lambda>k. True) refuses_bad)
          default_web_config sample_record) ())]"
  using eval_create_on_refusing_page eval_create_bad_on_refusing_page
  by (auto simp: result_of_def effects_of_def split: prod.splits)

lemma eval_broken_page:
  "result_of (add_new_test_data broken_page default_web_config sample_record) () = Inr False \<and>
   result_of (edit_test_data broken_page default_web_config (Row_int 1) sample_record) () = Inr False \<and>
   result_of (delete_test_data broken_page default_web_config (Row_int 1)) () = Inr False \<and>
   result_of (view_test_data broken_page default_web_config) () = Inr (View_failed text_grid_not_ready) \<and>
   (case result_of (batch_add_test_data broken_page default_web_config [sample_record, bad_record]) () of
      Inl e \<Rightarrow> False
    | Inr res \<Rightarrow> \<not> batch_success res \<and> batch_total res = 2 \<and> batch_success_count res = 0 \<and>
        batch_failed_count res = 2)"
  by code_simp

section \<open>The claims\<close>

subsection \<open>Resolving a row\<close>

lemma run_ordinal_3_of_2:
  "find_grid_row two_row_page
       default_web_config (Row_int 3) () =
     (Inr None, (),
      [Log INFO 151 [], Call (Wait_for_visible (grid_container default_web_config) 10000), Sleep 2,
       Log INFO 162 [], Log INFO 214 [I 3],
       Call (Count (Nth (data_rows default_web_config) 2)), Log WARNING 222 [I 3]])"
  by (simp add: find_grid_row_def wait_for_grid_ready_def monad_defs test_defs Let_def)

text \<open>
  C7. An ordinal row reference \<open>n\<close> larger than the number of data rows rendered when
  the locator is counted resolves to \<open>None\<close>: \<open>find_grid_row\<close> returns the value
  \<open>None\<close> and raises nothing, whatever the driver does. (The count is the last driver
  call of the run, so the page state the run leaves is the one the rows were counted in.)
\<close>

theorem find_grid_row_ordinal_beyond_rows:
  "find_grid_row br cfg (Row_int n) w = (r, w', evs) \<Longrightarrow>
   int (length (resolve br w' (data_rows cfg))) < n \<Longrightarrow> r = Inr None"
  by (auto simp: find_grid_row_def wait_for_grid_ready_def monad_defs pw_nth_beyond Let_def
      split: prod.splits sum.splits option.splits if_splits)

theorem find_grid_row_ordinal_beyond_rows_witness:
  "int (length (resolve two_row_page ()
       (data_rows default_web_config))) < 3 \<and>
   fst (find_grid_row two_row_page
       default_web_config (Row_int 3) ()) = Inr None"
  using find_grid_row_ordinal_beyond_rows [OF run_ordinal_3_of_2]
  by (simp add: run_ordinal_3_of_2) (simp add: test_defs)

lemma run_ordinal_0_of_2:
  "find_grid_row two_row_page
       default_web_config (Row_int 0) () =
     (Inr (Some (Nth (data_rows default_web_config) (- 1))), (),
      [Log INFO 151 [], Call (Wait_for_visible (grid_container default_web_config) 10000), Sleep 2,
       Log INFO 162 [], Log INFO 214 [I 0],
       Call (Count (Nth (data_rows default_web_config) (- 1)))])"
  by (simp add: find_grid_row_def wait_for_grid_ready_def monad_defs test_defs Let_def)

text \<open>
  C10. On a grid that shows at least one data row, the ordinal row reference \<open>0\<close>
  resolves to the last data row: the code asks for \<open>nth(0 - 1)\<close>, and \<open>nth(-1)\<close> is the
  last element. This holds whenever the grid becomes visible and the count does not
  raise.
\<close>

theorem find_grid_row_ordinal_zero:
  "find_grid_row br cfg (Row_int 0) w = (r, w', evs) \<Longrightarrow> no_fault evs \<Longrightarrow>
   resolve br w' (data_rows cfg) \<noteq> [] \<Longrightarrow>
     r = Inr (Some (Nth (data_rows cfg) (- 1))) \<and>
     resolve br w' (Nth (data_rows cfg) (- 1)) = [last (resolve br w' (data_rows cfg))]"
  by (auto simp: find_grid_row_def wait_for_grid_ready_def monad_defs pw_nth_last Let_def
      split: prod.splits sum.splits option.splits if_splits)

theorem find_grid_row_ordinal_zero_witness:
  "fst (find_grid_row two_row_page
       default_web_config (Row_int 0) ()) = Inr (Some (Nth (data_rows default_web_config) (- 1))) \<and>
   resolve two_row_page ()
       (Nth (data_rows default_web_config) (- 1)) = [''row two'']"
  using find_grid_row_ordinal_zero [OF run_ordinal_0_of_2]
  by (simp add: run_ordinal_0_of_2) (simp add: test_defs)


lemma run_text_abc:
  "find_grid_row mixed_case_page
       default_web_config (Row_str ''abc'') () =
     (Inr (Some (first_loc (Filter_has_text (data_rows default_web_config) ''abc''))), (),
      [Log INFO 151 [], Call (Wait_for_visible (grid_container default_web_config) 10000), Sleep 2,
       Log INFO 162 [], Log INFO 227 [S ''abc''],
       Call (Count (first_loc (Filter_has_text (data_rows default_web_config) ''abc'')))])"
  by (simp add: find_grid_row_def wait_for_grid_ready_def monad_defs test_defs Let_def
      has_text_match_def ascii_normalize_def js_isspace_def ascii_lower_def)

text \<open>
  C8, as the specification states it, fails: with the rows \<open>ABC-100 FT\<close> and
  \<open>abc-100 FT\<close> and the text \<open>abc\<close>, the row returned is the first one, which does not
  contain \<open>abc\<close> as a case-sensitive substring, while the second one does.
\<close>

theorem find_grid_row_text_case_counterexample:
  "fst (find_grid_row mixed_case_page
       default_web_config (Row_str ''abc'') ()) =
     Inr (Some (first_loc (Filter_has_text (data_rows default_web_config) ''abc''))) \<and>
   resolve mixed_case_page ()
     (first_loc (Filter_has_text (data_rows default_web_config) ''abc'')) = [''ABC-100 FT''] \<and>
   resolve mixed_case_page () (data_rows default_web_config) = [''ABC-100 FT'', ''abc-100 FT''] \<and>
   \<not> contains ''ABC-100 FT'' ''abc'' \<and> contains ''abc-100 FT'' ''abc''"
  by (simp add: run_text_abc)
     (simp add: test_defs has_text_match_def ascii_normalize_def js_isspace_def ascii_lower_def)


text \<open>
  C8, amended. A text row reference \<open>t\<close> resolves to the first row, in rendered order,
  that \<open>filter(has_text=t)\<close> keeps: the first row whose white-space-normalised text
  contains the normalised \<open>t\<close> without regard to letter case (every row if \<open>t\<close> is
  empty). The run never raises; it returns \<open>None\<close> if no row matches, and, when no
  driver call raised, only then.
\<close>

theorem find_grid_row_text_first_match:
  "find_grid_row br cfg (Row_str t) w = (r, w', evs) \<Longrightarrow>
     (case r of
        Inl e \<Rightarrow> False
      | Inr None \<Rightarrow>
          no_fault evs \<longrightarrow> List.find (row_matches br w' t) (resolve br w' (data_rows cfg)) = None
      | Inr (Some loc) \<Rightarrow>
          loc = first_loc (Filter_has_text (data_rows cfg) t) \<and>
          (\<exists>e. List.find (row_matches br w' t) (resolve br w' (data_rows cfg)) = Some e \<and>
               resolve br w' loc = [e]))"
  by (auto simp: find_grid_row_def wait_for_grid_ready_def monad_defs resolve_first_has_text Let_def
      split: prod.splits sum.splits option.splits if_splits)


theorem find_grid_row_text_first_match_witness:
  "fst (find_grid_row mixed_case_page
       default_web_config (Row_str ''abc'') ()) =
     Inr (Some (first_loc (Filter_has_text (data_rows default_web_config) ''abc''))) \<and>
   List.find (row_matches mixed_case_page () ''abc'')
      [''ABC-100 FT'', ''abc-100 FT''] = Some ''ABC-100 FT''"
  using find_grid_row_text_first_match [OF run_text_abc]
  by (simp add: run_text_abc)
     (simp add: test_defs has_text_match_def ascii_normalize_def js_isspace_def ascii_lower_def
        row_matches_def)

subsection \<open>Success rates and verdicts\<close>

text \<open>
  The rate is the code's \<open>success_count / len(data_dict)\<close>. Python computes it in
  floating point; here it is the exact quotient. The two agree on every comparison the
  code makes: the denominator is 5, the literal \<open>0.8\<close> is the double nearest to 4/5, and
  so is the quotient \<open>4 / 5\<close>, while 3/5 and less round to doubles below it.
\<close>

text \<open>
  C1, as the specification states it, fails: with three of the five fields mapped and
  all three edits confirmed, the verdict reports the rate 3/5, not 3/3, and create fails.
\<close>

theorem success_rate_denominator_counterexample:
  "fst create_run_three_columns = Inr False \<and>
   length (fill_attempts (snd (snd create_run_three_columns))) = 3 \<and>
   fills_confirmed (snd (snd create_run_three_columns)) = 3 \<and>
   map rate_of_report (create_report (snd (snd create_run_three_columns))) = [Some (3 / 5)] \<and>
   map rate_of_report (create_report (snd (snd create_run_three_columns))) \<noteq>
     [Some (of_nat (fills_confirmed (snd (snd create_run_three_columns))) /
            of_nat (length (fill_attempts (snd (snd create_run_three_columns)))))]"
  using eval_three_columns by (simp add: case_prod_beta)

text \<open>
  C1, amended. In every run of create or edit that reaches its verdict, the rate
  reported is K / 5: K is the number of confirmed cell edits and 5 the number of fields
  of the record, mapped or not (an unmapped field is left out of the numerator only).
  Edit reports no numbers when K = 0. When no edit was attempted, the operation returns
  \<open>False\<close>; it raises no division error.
\<close>

theorem success_rate_over_record_fields:
  assumes c: "add_new_test_data br cfg td w = (r, w', evs)"
    and e: "edit_test_data br2 cfg2 rid td2 w2 = (r2, w2', evs2)"
  shows
    "(create_decided evs \<longrightarrow>
        map rate_of_report (create_report evs) =
          [Some (of_nat (fills_confirmed evs) / of_nat (length (to_dict td)))]) \<and>
     (edit_decided evs2 \<longrightarrow>
        (if fills_confirmed evs2 = 0 then edit_report evs2 = []
         else map rate_of_report (edit_report evs2) =
           [Some (of_nat (fills_confirmed evs2) / of_nat (length (to_dict td2)))])) \<and>
     (fill_attempts evs = [] \<longrightarrow> r = Inr False) \<and>
     (fill_attempts evs2 = [] \<longrightarrow> r2 = Inr False)"
proof (intro conjI impI)
  assume "create_decided evs"
  with create_facts(1) [OF c]
  show "map rate_of_report (create_report evs) =
          [Some (of_nat (fills_confirmed evs) / of_nat (length (to_dict td)))]"
    by (auto simp: obs_defs split: sum.splits if_splits)
next
  assume "edit_decided evs2"
  with edit_facts(1) [OF e]
  show "if fills_confirmed evs2 = 0 then edit_report evs2 = []
         else map rate_of_report (edit_report evs2) =
           [Some (of_nat (fills_confirmed evs2) / of_nat (length (to_dict td2)))]"
    by (auto simp: obs_defs split: sum.splits if_splits)
next
  assume "fill_attempts evs = []"
  with create_facts(2) [OF c] have "logs_at 280 evs = []"
    by (rule no_attempt_no_confirm)
  with create_facts(1) [OF c] show "r = Inr False"
    by (auto simp: create_post_def split: sum.splits if_splits)
next
  assume "fill_attempts evs2 = []"
  with edit_facts(2) [OF e] have "logs_at 280 evs2 = []"
    by (rule no_attempt_no_confirm)
  with edit_facts(1) [OF e] show "r2 = Inr False"
    by (auto simp: edit_post_def split: sum.splits if_splits)
qed

theorem success_rate_over_record_fields_witness:
  "map rate_of_report (create_report (snd (snd create_run_three_columns))) = [Some (3 / 5)] \<and>
   fill_attempts (snd (snd edit_run_no_columns)) = [] \<and>
   fst edit_run_no_columns = Inr False"
  using success_rate_over_record_fields
      [OF run_triple [of create_run_three_columns, unfolded create_run_three_columns_def]
          run_triple [of edit_run_no_columns, unfolded edit_run_no_columns_def],
       folded create_run_three_columns_def edit_run_no_columns_def]
    eval_three_columns eval_edit_no_columns
  by (simp add: case_prod_beta)





subsection \<open>The cell edits of create\<close>

text \<open>
  C4. When all five fields are mapped, a run of create that reaches its field loop (it
  then reaches its verdict) attempts exactly five cell edits, in the order part number,
  station, version, description, manufacturing group; a run that stops before the loop
  attempts none.
\<close>

theorem create_attempts_five_in_order:
  "add_new_test_data br cfg td w = (r, w', evs) \<Longrightarrow>
   column_mapping cfg key_part_number = Some c1 \<Longrightarrow>
   column_mapping cfg key_station = Some c2 \<Longrightarrow>
   column_mapping cfg key_version = Some c3 \<Longrightarrow>
   column_mapping cfg key_description = Some c4 \<Longrightarrow>
   column_mapping cfg key_mfgid_group = Some c5 \<Longrightarrow>
     fill_attempts evs =
       (if create_decided evs then
          [[S key_part_number, I c1, S (part_number td)],
           [S key_station, I c2, S (station td)],
           [S key_version, I c3, S (version td)],
           [S key_description, I c4, S (description td)],
           [S key_mfgid_group, I c5, S (manufacturing_group td)]]
        else [])"
  by (drule create_facts(1))
     (auto simp: obs_defs to_dict_def attempt_of_def split: sum.splits if_splits)

theorem create_attempts_five_in_order_witness:
  "create_decided (snd (snd create_run_all_columns)) \<and>
   fill_attempts (snd (snd create_run_all_columns)) =
     [[S key_part_number, I 1, S ''ABC1234567''], [S key_station, I 2, S ''FT''],
      [S key_version, I 3, S ''V1.0.0.1''], [S key_description, I 4, S ''Test board''],
      [S key_mfgid_group, I 5, S ''DEFAULT'']]"
  using create_attempts_five_in_order
      [OF run_triple [of create_run_all_columns, unfolded create_run_all_columns_def],
       of 1 2 3 4 5, folded create_run_all_columns_def]
    eval_all_columns
  by (simp add: case_prod_beta)

text \<open>
  C5. When the mapping has no entry for the manufacturing group, create attempts at
  most four cell edits and none for that field, and logs no warning about an unknown
  field; if the other four fields are mapped and
  every attempted edit is confirmed, create returns \<open>True\<close>.
\<close>

theorem create_skips_unmapped_group:
  "add_new_test_data br cfg td w = (r, w', evs) \<Longrightarrow>
   column_mapping cfg key_mfgid_group = None \<Longrightarrow>
     length (fill_attempts evs) \<le> 4 \<and>
     (\<forall>c v. [S key_mfgid_group, I c, S v] \<notin> set (fill_attempts evs)) \<and>
     unknown_field_warnings evs = [] \<and>
     (column_mapping cfg key_part_number \<noteq> None \<and> column_mapping cfg key_station \<noteq> None \<and>
      column_mapping cfg key_version \<noteq> None \<and> column_mapping cfg key_description \<noteq> None \<and>
      create_decided evs \<and> fills_confirmed evs = length (fill_attempts evs) \<longrightarrow>
        r = Inr True)"
  apply (frule create_quiet)
  apply (drule create_facts(1))
  apply (auto simp: obs_defs to_dict_def attempt_of_def
       key_part_number_def key_station_def key_version_def key_description_def key_mfgid_group_def
      split: sum.splits if_splits option.splits)
  done

theorem create_skips_unmapped_group_witness:
  "column_mapping four_column_config key_mfgid_group = None \<and>
   fst create_run_four_columns = Inr True \<and>
   length (fill_attempts (snd (snd create_run_four_columns))) = 4 \<and>
   fills_confirmed (snd (snd create_run_four_columns)) = 4"
  using create_skips_unmapped_group
      [OF run_triple [of create_run_four_columns, unfolded create_run_four_columns_def],
       folded create_run_four_columns_def]
    eval_four_columns
  by (simp add: case_prod_beta four_column_config_def default_web_config_def key_part_number_def
        key_station_def key_version_def key_description_def key_mfgid_group_def)

subsection \<open>Batches\<close>

text \<open>
  C6. A batch runs create on every item of the list, in list order, each from the page
  state the one before it left, and sleeps 1 second after every item but the last; a
  failed item does not end the loop. It returns \<open>total\<close> = the length of the list,
  \<open>success_count\<close> = the number of items whose create returned \<open>True\<close>, \<open>failed_count\<close> =
  \<open>total - success_count\<close>, \<open>success\<close> = (\<open>success_count > 0\<close>), and one detail per item
  with its 1-based index, its status and its data. The effects of the batch are the
  opening log, then for each item its progress log, the effects of its create and the
  delay, then the closing log.
\<close>

theorem batch_runs_every_item_in_order:
  assumes run: "batch_add_test_data br cfg tds w = (r, w', evs)"
  shows
    "(let n = length tds;
          runs = create_each br cfg n 1 tds w;
          k = length (filter fst runs);
          details = map (\<lambda>((j, td), (ok, ev)). detail_of j ok td) (zip (List.enumerate 1 tds) runs)
      in length runs = n \<and>
         r = Inr \<lparr>batch_success = (0 < k), batch_total = n, batch_success_count = k,
                  batch_failed_count = n - k,
                  batch_success_rate = Some (if tds = [] then 0 else of_nat k / of_nat n),
                  batch_details = Some details, batch_error = None\<rparr> \<and>
         map item_index details = [1..<1 + n] \<and>
         map item_data details = map to_dict tds \<and>
         evs = Log INFO 517 [I (int n)] # concat (map (item_effects n) (List.enumerate 1 runs)) @
                 [Log INFO 548 [I (int k), I (int n)]])"
proof -
  let ?n = "length tds"
  let ?runs = "create_each br cfg ?n 1 tds w"
  obtain r1 w1 evs1 where loop:
    "for_loop (List.enumerate 1 tds) (batch_item br cfg ?n) (0, 0, []) w = (r1, w1, evs1)"
    by (cases "for_loop (List.enumerate 1 tds) (batch_item br cfg ?n) (0, 0, []) w") auto
  note facts = batch_loop [OF loop]
  have compl: "length (filter (\<lambda>p. \<not> fst p) ?runs) = ?n - length (filter fst ?runs)"
    using sum_length_filter_compl [of fst ?runs] by simp
  show ?thesis
  proof (cases "tds = []")
    case True
    with run loop facts show ?thesis
      by (simp add: batch_add_test_data_def monad_defs Let_def)
  next
    case False
    with run loop facts compl show ?thesis
      by (simp add: batch_add_test_data_def monad_defs Let_def details_index details_data
          del: One_nat_def)
  qed
qed

theorem batch_runs_every_item_in_order_witness:
  "fst batch_run_three =
     Inr \<lparr>batch_success = True, batch_total = 3, batch_success_count = 2, batch_failed_count = 1,
          batch_success_rate = Some (2 / 3),
          batch_details = Some [detail_of 1 True sample_record, detail_of 2 False bad_record,
                                detail_of 3 True sample_record],
          batch_error = None\<rparr>"
proof -
  have n: "length [sample_record, bad_record, sample_record] = 3"
    by simp
  note run = batch_runs_every_item_in_order
      [OF run_triple [of batch_run_three, unfolded batch_run_three_def],
       folded batch_run_three_def, unfolded Let_def n create_each_three]
  then show ?thesis
    by (simp add: enumerate_simps del: One_nat_def)
qed

subsection \<open>Failures are results\<close>

text \<open>
  C9. Whatever the driver does, and whichever of its calls raise an exception of class
  \<open>Exception\<close>, each of create, edit, delete, view and the batch returns a value: a
  boolean or a result dictionary, never an exception.
\<close>

theorem operations_never_raise:
  "(\<exists>b. result_of (add_new_test_data br cfg td) w = Inr b) \<and>
   (\<exists>b. result_of (edit_test_data br cfg rid td) w = Inr b) \<and>
   (\<exists>b. result_of (delete_test_data br cfg rid) w = Inr b) \<and>
   (\<exists>v. result_of (view_test_data br cfg) w = Inr v) \<and>
   (\<exists>res. result_of (batch_add_test_data br cfg tds) w = Inr res)"
  using add_new_test_data_returns [of br cfg td w] edit_test_data_returns [of br cfg rid td w]
    delete_test_data_returns [of br cfg rid w] view_test_data_returns [of br cfg w]
    batch_add_test_data_returns [of br cfg tds w]
  by (simp add: run_sat_projections not_isl_iff)

theorem operations_never_raise_witness:
  "(\<exists>b. result_of (add_new_test_data broken_page default_web_config sample_record) () = Inr b) \<and>
   result_of (add_new_test_data broken_page default_web_config sample_record) () = Inr False \<and>
   result_of (edit_test_data broken_page default_web_config (Row_int 1) sample_record) () = Inr False \<and>
   result_of (delete_test_data broken_page default_web_config (Row_int 1)) () = Inr False \<and>
   result_of (view_test_data broken_page default_web_config) () = Inr (View_failed text_grid_not_ready)"
  using operations_never_raise [of broken_page default_web_config sample_record "()" "Row_int 1"
      "[sample_record, bad_record]"] eval_broken_page
  by simp

end
